theory Spec2Isabelle
  imports Main "HOL-Library.Sublist" "HOL-Library.AList"
begin

section \<open>JavaScript strings\<close>

text \<open>
  A JavaScript string is a sequence of UTF-16 code units. The model keeps it as the list
  of its code units, each a natural number (below 65536 in any string the program can
  hold). A literal of the source is written \<open>js ''...''\<close>; a character that an Isabelle
  literal cannot hold is written as its code unit (\<open>[34]\<close> is the double quote,
  \<open>[96]\<close> the backtick, \<open>nl\<close> the line feed).
\<close>

type_synonym jsstring = "nat list"

definition js :: "string \<Rightarrow> jsstring" where
  "js s = map of_char s"

definition nl :: jsstring where
  "nl = [10]"

text \<open>
  \<open>`${n}`\<close> for a non-negative integer \<open>n\<close> (an array length, a loop counter):
  its decimal digits.
\<close>

function showNat :: "nat \<Rightarrow> jsstring" where
  "showNat n = (if n < 10 then [48 + n] else showNat (n div 10) @ [48 + n mod 10])"
  by pat_completeness auto
termination
  by (relation "measure id") auto

declare showNat.simps [simp del]

text \<open>\<open>`${x}`\<close> for a value that may be \<open>undefined\<close>.\<close>

definition render :: "jsstring option \<Rightarrow> jsstring" where
  "render v = (case v of None \<Rightarrow> js ''undefined'' | Some s \<Rightarrow> s)"

text \<open>\<open>Array.prototype.join\<close> on strings.\<close>

fun join :: "jsstring \<Rightarrow> jsstring list \<Rightarrow> jsstring" where
  "join sep [] = []"
| "join sep [x] = x"
| "join sep (x # y # ys) = x @ sep @ join sep (y # ys)"

section \<open>The data model (types.ts)\<close>

text \<open>
  \<open>Category\<close> is a union of six string literals; at run time a lead's category is the
  string the service returned, so the model keeps it a string. The identifier of a lead
  is the field \<open>id\<close> of the source.
\<close>

definition CATEGORIES :: "jsstring list" where
  "CATEGORIES = [js ''Connections'', js ''Events'', js ''Locations'', js ''Objects'',
     js ''Threats'', js ''Factions'']"

text \<open>
  The sensory record is an object that came out of \<open>JSON.parse\<close>: the model keeps it as
  the list of its own keys with their values, in the order in which the object lists
  them (the order of the JSON text), each key once. Its values are strings, as the type
  says. \<open>getProp s key\<close> is the property read \<open>s[key]\<close>, \<open>undefined\<close> for a key the
  object does not have.
\<close>

type_synonym sensory = "(jsstring \<times> jsstring) list"

definition getProp :: "sensory \<Rightarrow> jsstring \<Rightarrow> jsstring option" where
  "getProp s key = map_of s key"

text \<open>\<open>Pick<LeadDetails, 'sensory' | 'expandedDescription'>\<close>, and \<open>LeadDetails\<close> with its
  optional image on top of it.\<close>

record text_details =
  sensory :: sensory
  expandedDescription :: jsstring

record lead_details = text_details +
  imageUrl :: "jsstring option"

record lead =
  leadId :: jsstring
  name :: jsstring
  description :: jsstring
  category :: jsstring
  details :: "lead_details option"

record exposition =
  technology :: jsstring
  society :: jsstring
  environment :: jsstring

record transmission =
  transmissionId :: nat
  createdAt :: jsstring
  title :: jsstring
  settingSummary :: jsstring
  exposition :: exposition
  headerImageUrl :: "jsstring option"
  leads :: "lead list"

section \<open>The environment of services/gemini.ts\<close>

text \<open>What the code can throw or be rejected with.\<close>

datatype error =
    Error jsstring
  | SyntaxError jsstring
  | TypeError jsstring
  | ServiceError jsstring

text \<open>The response schema of a structured request (\<open>Type.STRING\<close>, \<open>Type.OBJECT\<close> with
  its properties and required list, \<open>Type.ARRAY\<close>).\<close>

datatype schema =
    STRING
  | STRING_described jsstring
  | OBJECT "(jsstring \<times> schema) list" "jsstring list"
  | ARRAY schema

datatype contents =
    Prompt jsstring
  | Parts "jsstring list"

record gen_config =
  systemInstruction :: "jsstring option"
  responseMimeType :: "jsstring option"
  responseSchema :: "schema option"
  aspectRatio :: "jsstring option"

record params =
  model :: jsstring
  contents :: contents
  config :: gen_config

text \<open>A call on the SDK client, with the key the client was built from.\<close>

datatype call =
    StreamCall jsstring params
  | ContentCall jsstring params

text \<open>
  What \<open>generateContentStream\<close> hands back: the chunks it delivers, each with its optional
  \<open>text\<close>, and then either the end of the stream or an error thrown by the iteration.
  The stream is taken to deliver finitely many chunks.
\<close>

record stream =
  chunks :: "jsstring option list"
  thrown :: "error option"

text \<open>What \<open>generateContent\<close> hands back, as far as the code reads it.\<close>

record inline_data =
  inlineBytes :: "jsstring option"
  mimeType :: "jsstring option"

record part =
  partText :: "jsstring option"
  inlineData :: "inline_data option"

record content =
  parts :: "part list option"

record candidate =
  content :: "content option"

record response =
  candidates :: "candidate list option"

text \<open>
  The generative service is outside the program. It is a parameter: two functions that
  answer a call from the calls made before it and the call itself.
\<close>

record sdk =
  generateContentStream :: "call list \<Rightarrow> jsstring \<Rightarrow> params \<Rightarrow> error + stream"
  generateContent :: "call list \<Rightarrow> jsstring \<Rightarrow> params \<Rightarrow> error + response"

text \<open>
  \<open>JSON.parse(cleanText)\<close>, whose result \<open>streamJson<T>\<close> returns as a \<open>T\<close> without
  checking it. The model takes the typing at its word: at each \<open>T\<close> the code uses, the
  parser yields a value of that type or throws. \<open>{ leads: Lead[] }\<close> is read with
  \<open>data.leads || []\<close>, so its \<open>leads\<close> may be missing; \<open>{ [key: string]: string }\<close> is a
  string for every key. The answer of the detail-text stage is read with
  \<open>textDetails.sensory.sight\<close>, which throws when the answer is \<open>null\<close> or has no
  \<open>sensory\<close>: the model keeps both cases (\<open>None\<close> for \<open>null\<close>, and an optional
  sensory record).
\<close>

record inspection =
  answerSensory :: "sensory option"
  answerDescription :: jsstring

record json =
  parseTitleAndSetting :: "jsstring \<Rightarrow> error + (jsstring \<times> jsstring)"
  parseExposition :: "jsstring \<Rightarrow> error + exposition"
  parseLeads :: "jsstring \<Rightarrow> error + lead list option"
  parseInspection :: "jsstring \<Rightarrow> error + inspection option"
  parseFields :: "jsstring \<Rightarrow> error + (jsstring \<Rightarrow> jsstring)"
  parseExpanded :: "jsstring \<Rightarrow> error + jsstring"

text \<open>
  The state the code reads and writes: the item \<open>technoir_api_key\<close> of the local storage,
  the calls made on the SDK so far (oldest first), the texts handed to the caller's
  progress callback (\<open>onUpdate\<close>, \<open>onLog\<close>), the first argument of every
  \<open>console.error\<close>, and what \<open>Date.now()\<close> and \<open>toLocaleDateString('en-US')\<close> give.
\<close>

record world =
  apiKeyItem :: "jsstring option"
  sent :: "call list"
  shown :: "jsstring list"
  console :: "jsstring list"
  dateNow :: nat
  dateLocale :: jsstring

definition callback :: "jsstring \<Rightarrow> world \<Rightarrow> world" where
  "callback text w = w\<lparr>shown := shown w @ [text]\<rparr>"

definition consoleError :: "jsstring \<Rightarrow> world \<Rightarrow> world" where
  "consoleError msg w = w\<lparr>console := console w @ [msg]\<rparr>"

definition record_call :: "call \<Rightarrow> world \<Rightarrow> world" where
  "record_call c w = w\<lparr>sent := sent w @ [c]\<rparr>"

section \<open>services/gemini.ts\<close>

subsection \<open>The credential\<close>

text \<open>\<open>localStorage.getItem('technoir_api_key') || undefined\<close>: a missing item and the
  empty string both give \<open>undefined\<close>.\<close>

definition getApiKey :: "world \<Rightarrow> jsstring option" where
  "getApiKey w =
     (case apiKeyItem w of
        None \<Rightarrow> None
      | Some k \<Rightarrow> if k = [] then None else Some k)"

definition missingApiKey :: error where
  "missingApiKey = Error (js ''Requested entity was not found: Missing API Key'')"

text \<open>\<open>getAI\<close> returns the client, which is its key as far as the model goes.\<close>

definition getAI :: "world \<Rightarrow> error + jsstring" where
  "getAI w =
     (case getApiKey w of
        None \<Rightarrow> Inl missingApiKey
      | Some apiKey \<Rightarrow> if apiKey = [] then Inl missingApiKey else Inr apiKey)"

subsection \<open>streamJson\<close>

text \<open>\<open>fullText.replace(/```json\n?|```/g, '')\<close>: scanning from the left, at every position
  the first alternative that matches is removed, the optional line feed with it.\<close>

definition fence :: jsstring where
  "fence = [96, 96, 96]"

definition fence_json :: jsstring where
  "fence_json = fence @ js ''json''"

definition fence_json_nl :: jsstring where
  "fence_json_nl = fence_json @ [10]"

function replaceFences :: "jsstring \<Rightarrow> jsstring" where
  "replaceFences [] = []"
| "replaceFences (c # cs) =
     (if prefix fence_json_nl (c # cs) then replaceFences (drop 8 (c # cs))
      else if prefix fence_json (c # cs) then replaceFences (drop 7 (c # cs))
      else if prefix fence (c # cs) then replaceFences (drop 3 (c # cs))
      else c # replaceFences cs)"
  by pat_completeness auto
termination
  by (relation "measure length") auto

declare replaceFences.simps(2) [simp del]

text \<open>\<open>String.prototype.trim\<close>: the white space and line terminators of ECMAScript.\<close>

definition isWhiteSpace :: "nat \<Rightarrow> bool" where
  "isWhiteSpace c \<longleftrightarrow>
     c \<in> {9, 10, 11, 12, 13, 32, 160, 5760, 8232, 8233, 8239, 8287, 12288, 65279}
     \<or> (8192 \<le> c \<and> c \<le> 8202)"

definition trim :: "jsstring \<Rightarrow> jsstring" where
  "trim s = rev (dropWhile isWhiteSpace (rev (dropWhile isWhiteSpace s)))"

definition clean :: "jsstring \<Rightarrow> jsstring" where
  "clean fullText = trim (replaceFences fullText)"

text \<open>The loop over the stream: a chunk whose text is \<open>undefined\<close> or empty is skipped;
  any other is appended, and the callback, when there is one, gets the text so far.\<close>

fun accumulate :: "bool \<Rightarrow> jsstring option list \<Rightarrow> jsstring \<Rightarrow> world \<Rightarrow> jsstring \<times> world" where
  "accumulate onUpdate [] fullText w = (fullText, w)"
| "accumulate onUpdate (chunk # rest) fullText w =
     (case chunk of
        None \<Rightarrow> accumulate onUpdate rest fullText w
      | Some text \<Rightarrow>
          if text = [] then accumulate onUpdate rest fullText w
          else accumulate onUpdate rest (fullText @ text)
                 (if onUpdate then callback (fullText @ text) w else w))"

text \<open>The end of \<open>streamJson\<close>: clean, parse, log and rethrow what the parser throws.\<close>

definition parseClean :: "(jsstring \<Rightarrow> error + 'a) \<Rightarrow> jsstring \<Rightarrow> world \<Rightarrow> (error + 'a) \<times> world" where
  "parseClean parse fullText w =
     (let cleanText = clean fullText
      in case parse cleanText of
           Inl e \<Rightarrow> (Inl e, consoleError (js ''JSON parse error'') w)
         | Inr v \<Rightarrow> (Inr v, w))"

text \<open>\<open>onUpdate\<close> says whether the caller passed a callback.\<close>

definition streamJson ::
  "sdk \<Rightarrow> (jsstring \<Rightarrow> error + 'a) \<Rightarrow> jsstring \<Rightarrow> contents \<Rightarrow> gen_config \<Rightarrow> bool \<Rightarrow> world
     \<Rightarrow> (error + 'a) \<times> world" where
  "streamJson ai parse mdl cnt cfg onUpdate w =
     (case getAI w of
        Inl e \<Rightarrow> (Inl e, w)
      | Inr apiKey \<Rightarrow>
          (let p = \<lparr>model = mdl, contents = cnt, config = cfg\<rparr>;
               w1 = record_call (StreamCall apiKey p) w
           in case generateContentStream ai (sent w) apiKey p of
                Inl e \<Rightarrow> (Inl e, w1)
              | Inr response \<Rightarrow>
                  (case accumulate onUpdate (chunks response) [] w1 of
                     (fullText, w2) \<Rightarrow>
                       (case thrown response of
                          Some e \<Rightarrow> (Inl e, w2)
                        | None \<Rightarrow> parseClean parse fullText w2))))"

subsection \<open>Stage functions: structured text\<close>

text \<open>\<open>SYSTEM_INSTRUCTION\<close> of constants.ts.\<close>

definition SYSTEM_INSTRUCTION :: jsstring where
  "SYSTEM_INSTRUCTION = concat
      [js ''You are a specialized engine for generating Technoir RPG Transmissions.'', nl,
       js ''Your tone is gritty, hardboiled, and cinematic cyberpunk noir.'', nl,
       js ''Focus on high-contrast descriptions, sensory-rich details, and complex systemic connections.'']"

definition jsonConfig :: "schema \<Rightarrow> gen_config" where
  "jsonConfig sch =
     \<lparr>systemInstruction = Some SYSTEM_INSTRUCTION,
      responseMimeType = Some (js ''application/json''),
      responseSchema = Some sch,
      aspectRatio = None\<rparr>"

definition flashModel :: jsstring where
  "flashModel = js ''gemini-3-flash-preview''"

text \<open>In the definitions below \<open>ttl\<close>, \<open>summ\<close>, \<open>expo\<close>, \<open>sens\<close> and \<open>expanded\<close> stand for the
  source's \<open>title\<close>, \<open>settingSummary\<close>, \<open>exposition\<close>, \<open>sensory\<close> and \<open>expandedDescription\<close>,
  names that the records hold.\<close>

definition titleAndSettingPrompt :: "jsstring \<Rightarrow> jsstring" where
  "titleAndSettingPrompt theme = concat
      [js ''Theme: '', theme, js ''.'', nl,
       js ''    Generate a Title and a 2-sentence Setting Summary for a Technoir transmission.'', nl,
       js ''    The tone should be gritty, cyberpunk noir.'']"

definition generateTitleAndSetting ::
  "sdk \<Rightarrow> json \<Rightarrow> jsstring \<Rightarrow> bool \<Rightarrow> world \<Rightarrow> (error + jsstring \<times> jsstring) \<times> world" where
  "generateTitleAndSetting ai json theme onUpdate w =
     streamJson ai (parseTitleAndSetting json) flashModel
       (Prompt (titleAndSettingPrompt theme))
       (jsonConfig (OBJECT [(js ''title'', STRING), (js ''settingSummary'', STRING)]
          [js ''title'', js ''settingSummary'']))
       onUpdate w"

definition expositionPrompt :: "jsstring \<Rightarrow> jsstring \<Rightarrow> jsstring \<Rightarrow> jsstring" where
  "expositionPrompt theme ttl summ = concat
      [js ''Theme: '', theme, js ''.'', nl,
       js ''    Transmission Title: '', [34], ttl, [34], js ''.'', nl,
       js ''    Setting Summary: '', [34], summ, [34], js ''.'', nl,
       js ''    '', nl,
       js ''    Based on the above, create detailed Exposition parameters (1 paragraph each) for:'', nl,
       js ''    1. Technology (Unique tech quirks of this setting)'', nl,
       js ''    2. Society (Class struggle, crime, or culture)'', nl,
       js ''    3. Environment (Physical atmosphere, weather, architecture)'']"

definition generateExposition ::
  "sdk \<Rightarrow> json \<Rightarrow> jsstring \<Rightarrow> jsstring \<Rightarrow> jsstring \<Rightarrow> bool \<Rightarrow> world
     \<Rightarrow> (error + exposition) \<times> world" where
  "generateExposition ai json theme ttl summ onUpdate w =
     streamJson ai (parseExposition json) flashModel
       (Prompt (expositionPrompt theme ttl summ))
       (jsonConfig (OBJECT
          [(js ''technology'', STRING), (js ''society'', STRING), (js ''environment'', STRING)]
          [js ''technology'', js ''society'', js ''environment'']))
       onUpdate w"

definition leadsPrompt :: "jsstring \<Rightarrow> jsstring \<Rightarrow> exposition \<Rightarrow> jsstring" where
  "leadsPrompt ttl summary expo = concat
      [js ''Context: A Technoir setting titled '', [34], ttl, [34], js ''.'', nl,
       js ''    Summary: '', summary, nl,
       js ''    Technology: '', technology expo, nl,
       js ''    Society: '', society expo, nl,
       js ''    Environment: '', environment expo, nl,
       js ''    '', nl,
       js ''    Generate 36 leads: Exactly 6 leads for each of these 6 categories: Connections, Events, Locations, Objects, Threats, Factions.'', nl,
       js ''    Each lead name should be 2-3 words. Description should be exactly 1 evocative sentence that ties into the exposition provided.'']"

definition leadsSchema :: schema where
  "leadsSchema =
     OBJECT
       [(js ''leads'',
         ARRAY (OBJECT
           [(js ''id'', STRING), (js ''name'', STRING), (js ''description'', STRING),
            (js ''category'', STRING_described
               (js ''Must be one of: Connections, Events, Locations, Objects, Threats, Factions''))]
           [js ''id'', js ''name'', js ''description'', js ''category'']))]
       [js ''leads'']"

text \<open>\<open>return data.leads || []\<close>: an array, empty or not, is returned as it is.\<close>

definition generateLeads ::
  "sdk \<Rightarrow> json \<Rightarrow> jsstring \<Rightarrow> jsstring \<Rightarrow> jsstring \<Rightarrow> exposition \<Rightarrow> bool \<Rightarrow> world
     \<Rightarrow> (error + lead list) \<times> world" where
  "generateLeads ai json theme ttl summary expo onUpdate w =
     (case streamJson ai (parseLeads json) flashModel
             (Prompt (leadsPrompt ttl summary expo)) (jsonConfig leadsSchema) onUpdate w of
        (Inl e, w') \<Rightarrow> (Inl e, w')
      | (Inr dataLeads, w') \<Rightarrow>
          (case dataLeads of
             None \<Rightarrow> (Inr [], w')
           | Some ls \<Rightarrow> (Inr ls, w')))"

definition inspectionTextPrompt :: "lead \<Rightarrow> jsstring \<Rightarrow> jsstring \<Rightarrow> exposition \<Rightarrow> jsstring" where
  "inspectionTextPrompt lead ttl summary expo = concat
      [js ''Context: Technoir setting '', [34], ttl, [34], js ''.'', nl,
       js ''    Summary: '', summary, nl,
       js ''    Exposition Data:'', nl,
       js ''    - Tech: '', technology expo, nl,
       js ''    - Society: '', society expo, nl,
       js ''    - Environment: '', environment expo, nl,
       nl,
       js ''    Subject Node:'', nl,
       js ''    - Name: '', name lead, nl,
       js ''    - Category: '', category lead, nl,
       js ''    - Descriptor: '', description lead, nl,
       nl,
       js ''    Task: Generate a high-fidelity investigative dossier.'', nl,
       js ''    1. Sensory Data: 4 distinct sensory inputs (Sight, Sound, Smell, Vibe) that immediately establish the scene/subject.'', nl,
       js ''    2. Expanded Description: A hardboiled, atmospheric paragraph expanding on the '', [34], js ''Descriptor'', [34], js '' and integrating the '', [34], js ''Exposition Data'', [34], js ''. It should feel like a GM describing the node to players.'']"

definition inspectionSchema :: schema where
  "inspectionSchema =
     OBJECT
       [(js ''sensory'',
         OBJECT
           [(js ''sight'', STRING), (js ''sound'', STRING), (js ''smell'', STRING),
            (js ''vibe'', STRING)]
           [js ''sight'', js ''sound'', js ''smell'', js ''vibe'']),
        (js ''expandedDescription'', STRING)]
       [js ''sensory'', js ''expandedDescription'']"

definition generateLeadInspectionText ::
  "sdk \<Rightarrow> json \<Rightarrow> lead \<Rightarrow> jsstring \<Rightarrow> jsstring \<Rightarrow> exposition \<Rightarrow> world
     \<Rightarrow> (error + inspection option) \<times> world" where
  "generateLeadInspectionText ai json lead ttl summary expo w =
     streamJson ai (parseInspection json) flashModel
       (Prompt (inspectionTextPrompt lead ttl summary expo))
       (jsonConfig inspectionSchema) False w"

text \<open>The four sensory fields, as the typed code names them, and the key of each.\<close>

datatype sensory_field = Sight | Sound | Smell | Vibe

fun fieldKey :: "sensory_field \<Rightarrow> jsstring" where
  "fieldKey Sight = js ''sight''"
| "fieldKey Sound = js ''sound''"
| "fieldKey Smell = js ''smell''"
| "fieldKey Vibe = js ''vibe''"

text \<open>\<open>Object.entries(currentSensory)\<close>: the keys the object has, with their values, in the
  object's own order.\<close>

definition entries :: "sensory \<Rightarrow> (jsstring \<times> jsstring) list" where
  "entries s = s"

definition otherFieldsOf :: "sensory_field \<Rightarrow> sensory \<Rightarrow> jsstring" where
  "otherFieldsOf fieldName currentSensory =
     join nl
       (map (\<lambda>(key, val). concat [key, js '': '', val])
          (filter (\<lambda>(key, val). key \<noteq> fieldKey fieldName) (entries currentSensory)))"

definition sensoryFieldPrompt ::
  "lead \<Rightarrow> jsstring \<Rightarrow> jsstring \<Rightarrow> exposition \<Rightarrow> jsstring" where
  "sensoryFieldPrompt lead fieldName otherFields expo = concat
      [js ''Context: Technoir lead '', [34], name lead, [34], js '' ('', category lead, js '').'', nl,
       js ''    Description: '', description lead, nl,
       nl,
       js ''    Exposition Context:'', nl,
       js ''    - Tech: '', technology expo, nl,
       js ''    - Society: '', society expo, nl,
       js ''    - Environment: '', environment expo, nl,
       nl,
       js ''    Existing sensory data:'', nl,
       js ''    '', otherFields, nl,
       nl,
       js ''    Task: Generate a new '', fieldName, js '' sensory input that complements the existing sensory data and fits the exposition context. Keep it concise and evocative.'']"

definition sensoryFieldParams :: "lead \<Rightarrow> sensory_field \<Rightarrow> sensory \<Rightarrow> exposition \<Rightarrow> params" where
  "sensoryFieldParams lead fieldName currentSensory expo =
     (let otherFields = otherFieldsOf fieldName currentSensory
      in \<lparr>model = flashModel,
          contents = Prompt (sensoryFieldPrompt lead (fieldKey fieldName) otherFields expo),
          config = jsonConfig (OBJECT [(fieldKey fieldName, STRING)] [fieldKey fieldName])\<rparr>)"

definition regenerateSensoryField ::
  "sdk \<Rightarrow> json \<Rightarrow> lead \<Rightarrow> sensory_field \<Rightarrow> sensory \<Rightarrow> exposition \<Rightarrow> world
     \<Rightarrow> (error + jsstring) \<times> world" where
  "regenerateSensoryField ai json lead fieldName currentSensory expo w =
     (let p = sensoryFieldParams lead fieldName currentSensory expo
      in case streamJson ai (parseFields json) (model p) (contents p) (config p) False w of
           (Inl e, w') \<Rightarrow> (Inl e, w')
         | (Inr result, w') \<Rightarrow> (Inr (result (fieldKey fieldName)), w'))"

definition expandedDescriptionPrompt :: "lead \<Rightarrow> sensory \<Rightarrow> exposition \<Rightarrow> jsstring" where
  "expandedDescriptionPrompt lead sens expo = concat
      [js ''Context: Technoir lead '', [34], name lead, [34], js '' ('', category lead, js '').'', nl,
       js ''    Description: '', description lead, nl,
       nl,
       js ''    Exposition Context:'', nl,
       js ''    - Tech: '', technology expo, nl,
       js ''    - Society: '', society expo, nl,
       js ''    - Environment: '', environment expo, nl,
       nl,
       js ''    Sensory Data:'', nl,
       js ''    - Sight: '', render (getProp sens (js ''sight'')), nl,
       js ''    - Sound: '', render (getProp sens (js ''sound'')), nl,
       js ''    - Smell: '', render (getProp sens (js ''smell'')), nl,
       js ''    - Vibe: '', render (getProp sens (js ''vibe'')), nl,
       nl,
       js ''    Task: Generate a hardboiled, atmospheric paragraph (expanded description) that integrates the sensory data and exposition. It should feel like a GM describing this node to players in a Technoir game.'']"

definition regenerateExpandedDescription ::
  "sdk \<Rightarrow> json \<Rightarrow> lead \<Rightarrow> sensory \<Rightarrow> exposition \<Rightarrow> world \<Rightarrow> (error + jsstring) \<times> world" where
  "regenerateExpandedDescription ai json lead sens expo w =
     streamJson ai (parseExpanded json) flashModel
       (Prompt (expandedDescriptionPrompt lead sens expo))
       (jsonConfig (OBJECT [(js ''expandedDescription'', STRING)] [js ''expandedDescription'']))
       False w"

subsection \<open>Stage functions: images\<close>

text \<open>\<open>response.candidates?.[0]?.content?.parts || []\<close>.\<close>

definition responseParts :: "response \<Rightarrow> part list" where
  "responseParts r =
     (case candidates r of
        None \<Rightarrow> []
      | Some [] \<Rightarrow> []
      | Some (c # _) \<Rightarrow>
          (case content c of
             None \<Rightarrow> []
           | Some ct \<Rightarrow> (case parts ct of None \<Rightarrow> [] | Some ps \<Rightarrow> ps)))"

text \<open>The loop over the parts: the first part with inline data ends the function with
  the data URI; without one the loop falls through.\<close>

fun firstInlineData :: "part list \<Rightarrow> jsstring option" where
  "firstInlineData [] = None"
| "firstInlineData (p # ps) =
     (case inlineData p of
        Some d \<Rightarrow> Some (concat [js ''data:image/png;base64,'', render (inlineBytes d)])
      | None \<Rightarrow> firstInlineData ps)"

definition imageConfig :: "jsstring \<Rightarrow> gen_config" where
  "imageConfig ratio =
     \<lparr>systemInstruction = None, responseMimeType = None, responseSchema = None,
      aspectRatio = Some ratio\<rparr>"

definition imageModel :: jsstring where
  "imageModel = js ''gemini-2.5-flash-image''"

text \<open>What the three image stages do inside their \<open>try\<close> once the request is built,
  in the same words in each: \<open>getAI\<close>, the call, the loop over the parts.\<close>

definition imageAttempt :: "sdk \<Rightarrow> params \<Rightarrow> world \<Rightarrow> (error + jsstring option) \<times> world" where
  "imageAttempt ai p w =
     (case getAI w of
        Inl e \<Rightarrow> (Inl e, w)
      | Inr apiKey \<Rightarrow>
          (let w1 = record_call (ContentCall apiKey p) w
           in case generateContent ai (sent w) apiKey p of
                Inl e \<Rightarrow> (Inl e, w1)
              | Inr response \<Rightarrow> (Inr (firstInlineData (responseParts response)), w1)))"

text \<open>The \<open>catch\<close> of an image stage: log under the stage's label, then
  \<open>return undefined\<close>.\<close>

definition catchImage ::
  "jsstring \<Rightarrow> (error + jsstring option) \<times> world \<Rightarrow> (error + jsstring option) \<times> world" where
  "catchImage label attempt =
     (case attempt of
        (Inl e, w') \<Rightarrow> (Inr None, consoleError label w')
      | (Inr url, w') \<Rightarrow> (Inr url, w'))"

definition headerPrompt :: "jsstring \<Rightarrow> jsstring \<Rightarrow> exposition \<Rightarrow> jsstring" where
  "headerPrompt ttl summary expo = concat
      [js ''Cinematic wide-shot cyberpunk noir landscape for a setting titled '', [34], ttl, [34], js ''. '', nl,
       js ''        Context: '', summary, js ''. '', nl,
       js ''        Visual details: '', environment expo, js ''. '', nl,
       js ''        Neon rain, heavy atmosphere, hyper-detailed, 8k resolution, cinematic lighting.'']"

definition generateTransmissionHeader ::
  "sdk \<Rightarrow> jsstring \<Rightarrow> jsstring \<Rightarrow> exposition \<Rightarrow> world \<Rightarrow> (error + jsstring option) \<times> world" where
  "generateTransmissionHeader ai ttl summary expo w =
     catchImage (js ''Header image generation failed'')
       (imageAttempt ai
          \<lparr>model = imageModel, contents = Parts [headerPrompt ttl summary expo],
           config = imageConfig (js ''16:9'')\<rparr> w)"

definition inspectionImagePrompt ::
  "lead \<Rightarrow> jsstring \<Rightarrow> jsstring \<Rightarrow> jsstring \<Rightarrow> jsstring \<Rightarrow> jsstring" where
  "inspectionImagePrompt lead ttl summary sensorySight focusDirective = concat
      [js ''Cinematic cyberpunk noir visualization.'', nl,
       js ''          Subject: '', [34], name lead, [34], nl,
       js ''          Descriptor: '', description lead, nl,
       js ''          Category: '', category lead, nl,
       js ''          '', nl,
       js ''          Context: '', ttl, js ''. '', summary, nl,
       js ''          Visual Flavor: '', sensorySight, nl,
       js ''          '', nl,
       js ''          Directive: '', focusDirective, nl,
       js ''          Style: Gritty, shadow-heavy, high contrast, hyper-detailed, 8k resolution, cinematic lighting, volumetric fog.'']"

text \<open>The request of the lead-detail image, with the \<open>switch\<close> on the category that
  comes before it.\<close>

definition inspectionImageParams :: "lead \<Rightarrow> jsstring \<Rightarrow> jsstring \<Rightarrow> jsstring \<Rightarrow> params" where
  "inspectionImageParams lead ttl summary sensorySight =
     (let focusDirective =
            (if category lead = js ''Locations'' then
               js ''Wide or medium shot of the environment/location. Architecture, mood, lighting. NO central character. Environmental focus.''
             else if category lead = js ''Objects'' then
               js ''Close-up product shot or macro detail of the object. High texture. Object is the sole subject. No people.''
             else if category lead = js ''Events'' then
               js ''Dynamic scene, active situation, implied motion. Narrative focus.''
             else
               js ''Character portrait or group shot. Distinct cyberpunk fashion, expressive, moody lighting. Focus on the individual(s).'')
      in \<lparr>model = imageModel,
          contents = Parts [inspectionImagePrompt lead ttl summary sensorySight focusDirective],
          config = imageConfig (js ''1:1'')\<rparr>)"

definition generateLeadInspectionImage ::
  "sdk \<Rightarrow> lead \<Rightarrow> jsstring \<Rightarrow> jsstring \<Rightarrow> jsstring \<Rightarrow> world
     \<Rightarrow> (error + jsstring option) \<times> world" where
  "generateLeadInspectionImage ai lead ttl summary sensorySight w =
     catchImage (js ''Lead image generation failed'')
       (imageAttempt ai (inspectionImageParams lead ttl summary sensorySight) w)"

definition regenerateImagePrompt ::
  "lead \<Rightarrow> sensory \<Rightarrow> jsstring \<Rightarrow> exposition \<Rightarrow> jsstring \<Rightarrow> jsstring" where
  "regenerateImagePrompt lead sens expanded expo focusDirective = concat
      [js ''Cinematic cyberpunk noir visualization.'', nl,
       js ''          Subject: '', [34], name lead, [34], nl,
       js ''          Category: '', category lead, nl,
       js ''          Description: '', description lead, nl,
       nl,
       js ''          Environmental Context:'', nl,
       js ''          - Technology: '', technology expo, nl,
       js ''          - Environment: '', environment expo, nl,
       nl,
       js ''          Visual Details:'', nl,
       js ''          - Sight: '', render (getProp sens (js ''sight'')), nl,
       js ''          - Sound: '', render (getProp sens (js ''sound'')), nl,
       js ''          - Smell: '', render (getProp sens (js ''smell'')), nl,
       js ''          - Vibe: '', render (getProp sens (js ''vibe'')), nl,
       nl,
       js ''          Scene Description: '', expanded, nl,
       nl,
       js ''          Directive: '', focusDirective, nl,
       js ''          Style: Gritty, shadow-heavy, high contrast, hyper-detailed, 8k resolution, cinematic lighting, volumetric fog.'']"

definition regenerateImageParams :: "lead \<Rightarrow> sensory \<Rightarrow> jsstring \<Rightarrow> exposition \<Rightarrow> params" where
  "regenerateImageParams lead sens expanded expo =
     (let focusDirective =
            (if category lead = js ''Locations'' then
               js ''Wide or medium shot of the environment/location. Architecture, mood, lighting. NO central character. Environmental focus.''
             else if category lead = js ''Objects'' then
               js ''Close-up product shot or macro detail of the object. High texture. Object is the sole subject. No people.''
             else if category lead = js ''Events'' then
               js ''Dynamic scene, active situation, implied motion. Narrative focus.''
             else
               js ''Character portrait or group shot. Distinct cyberpunk fashion, expressive, moody lighting. Focus on the individual(s).'')
      in \<lparr>model = imageModel,
          contents = Parts [regenerateImagePrompt lead sens expanded expo focusDirective],
          config = imageConfig (js ''1:1'')\<rparr>)"

definition regenerateLeadImage ::
  "sdk \<Rightarrow> lead \<Rightarrow> sensory \<Rightarrow> jsstring \<Rightarrow> exposition \<Rightarrow> world
     \<Rightarrow> (error + jsstring option) \<times> world" where
  "regenerateLeadImage ai lead sens expanded expo w =
     catchImage (js ''Lead image regeneration failed'')
       (imageAttempt ai (regenerateImageParams lead sens expanded expo) w)"

subsection \<open>generateFullTransmission\<close>

text \<open>The two log lines that carry numbers: \<open>n\<close> is \<open>leads.length\<close>, \<open>i\<close> the loop index.\<close>

definition scanLine :: "nat \<Rightarrow> jsstring" where
  "scanLine n = concat
      [js ''>> INITIATING DEEP SCAN OF '', showNat n, js '' NODES. THIS WILL TAKE TIME...'']"

definition processingLine :: "nat \<Rightarrow> nat \<Rightarrow> lead \<Rightarrow> jsstring" where
  "processingLine n i lead = concat
      [js ''>> PROCESSING NODE ['', showNat (i + 1), js ''/'', showNat n, js '']: '', name lead, js ''...'']"

text \<open>\<open>textDetails.sensory.sight\<close> throws a \<open>TypeError\<close> when the answer is \<open>null\<close> or has
  no \<open>sensory\<close> (the message is the engine's; the model keeps one). Otherwise the
  answer and its sensory record are there to read.\<close>

definition cannotRead :: error where
  "cannotRead = TypeError (js ''Cannot read properties of undefined'')"

definition sensoryOf :: "inspection option \<Rightarrow> error + inspection \<times> sensory" where
  "sensoryOf textDetails =
     (case textDetails of
        None \<Rightarrow> Inl cannotRead
      | Some a \<Rightarrow>
          (case answerSensory a of
             None \<Rightarrow> Inl cannotRead
           | Some s \<Rightarrow> Inr (a, s)))"

definition failedLine :: "lead \<Rightarrow> jsstring" where
  "failedLine lead = concat [js ''Failed to process lead '', name lead]"

text \<open>One round of the loop over the leads: the log line, then the \<open>try\<close> with the
  detail-text call, the read of the sight from its answer and the detail-image call;
  the \<open>catch\<close> logs and keeps the lead as it was. A sight that is \<open>undefined\<close> goes
  into the image prompt as the template shows it.\<close>

definition detailLead ::
  "sdk \<Rightarrow> json \<Rightarrow> jsstring \<Rightarrow> jsstring \<Rightarrow> exposition \<Rightarrow> nat \<Rightarrow> nat \<Rightarrow> lead \<Rightarrow> world
     \<Rightarrow> lead \<times> world" where
  "detailLead ai json ttl summ expo n i lead w =
     (case generateLeadInspectionText ai json lead ttl summ expo
             (callback (processingLine n i lead) w) of
        (Inl e, w2) \<Rightarrow> (lead, consoleError (failedLine lead) w2)
      | (Inr textDetails, w2) \<Rightarrow>
          (case sensoryOf textDetails of
             Inl e \<Rightarrow> (lead, consoleError (failedLine lead) w2)
           | Inr (a, s) \<Rightarrow>
               (case generateLeadInspectionImage ai lead ttl summ
                       (render (getProp s (js ''sight''))) w2 of
                  (Inl e, w3) \<Rightarrow> (lead, consoleError (failedLine lead) w3)
                | (Inr url, w3) \<Rightarrow>
                    (lead\<lparr>details := Some
                        \<lparr>sensory = s, expandedDescription = answerDescription a,
                         imageUrl = url\<rparr>\<rparr>, w3))))"

text \<open>The loop: \<open>i\<close> is the index, the list holds \<open>leads[i]\<close> and the leads after it.\<close>

fun detailLoop ::
  "sdk \<Rightarrow> json \<Rightarrow> jsstring \<Rightarrow> jsstring \<Rightarrow> exposition \<Rightarrow> nat \<Rightarrow> nat \<Rightarrow> lead list \<Rightarrow> lead list
     \<Rightarrow> world \<Rightarrow> lead list \<times> world" where
  "detailLoop ai json ttl summ expo n i [] detailedLeads w = (detailedLeads, w)"
| "detailLoop ai json ttl summ expo n i (lead # rest) detailedLeads w =
     (case detailLead ai json ttl summ expo n i lead w of
        (detailed, w') \<Rightarrow>
          detailLoop ai json ttl summ expo n (i + 1) rest (detailedLeads @ [detailed]) w')"

text \<open>Steps 1 and 2 of the function: the three structure stages, the header, and the
  transmission built from them with the roster as it came.\<close>

definition generateStructure ::
  "sdk \<Rightarrow> json \<Rightarrow> jsstring \<Rightarrow> world \<Rightarrow> (error + transmission) \<times> world" where
  "generateStructure ai json theme w =
     (case generateTitleAndSetting ai json theme False
             (callback (js ''>> GENERATING STRUCTURAL FRAMEWORK...'') w) of
        (Inl e, w1) \<Rightarrow> (Inl e, w1)
      | (Inr (ttl, summ), w1) \<Rightarrow>
          (case generateExposition ai json theme ttl summ False
                  (callback (js ''>> DOWNLOADING EXPOSITION...'')
                     (callback (concat [js ''>> STRUCTURE ACQUIRED: '', ttl]) w1)) of
             (Inl e, w2) \<Rightarrow> (Inl e, w2)
           | (Inr expo, w2) \<Rightarrow>
               (case generateLeads ai json theme ttl summ expo False
                       (callback (js ''>> COMPILING LEAD NETWORK...'') w2) of
                  (Inl e, w3) \<Rightarrow> (Inl e, w3)
                | (Inr roster, w3) \<Rightarrow>
                    (case generateTransmissionHeader ai ttl summ expo
                            (callback (js ''>> RENDERING ENVIRONMENTAL VISUALS...'') w3) of
                       (Inl e, w4) \<Rightarrow> (Inl e, w4)
                     | (Inr url, w4) \<Rightarrow>
                         (Inr \<lparr>transmissionId = dateNow w4, createdAt = dateLocale w4,
                               title = ttl, settingSummary = summ, exposition = expo,
                               headerImageUrl = url, leads = roster\<rparr>, w4)))))"

definition generateFullTransmission ::
  "sdk \<Rightarrow> json \<Rightarrow> jsstring \<Rightarrow> world \<Rightarrow> (error + transmission) \<times> world" where
  "generateFullTransmission ai json theme w =
     (case generateStructure ai json theme w of
        (Inl e, w1) \<Rightarrow> (Inl e, w1)
      | (Inr t, w1) \<Rightarrow>
          (case detailLoop ai json (title t) (settingSummary t) (exposition t)
                  (length (leads t)) 0 (leads t) []
                  (callback (scanLine (length (leads t))) w1) of
             (detailedLeads, w2) \<Rightarrow>
               (Inr (t\<lparr>leads := detailedLeads\<rparr>),
                callback (js ''>> TRANSMISSION PACKAGE COMPLETE.'') w2)))"

section \<open>The viewer's handlers (App.tsx)\<close>

text \<open>
  The component's state as the two handlers read and write it: the game state with the
  transmission on view, the lead whose dossier is open, the key modal, what
  \<open>canGenerate\<close> is computed from, and the transmissions handed to \<open>saveTransmission\<close>.
  A state update \<open>setState(prev => ...)\<close> is applied to the state at hand.
\<close>

datatype status = Setup | Loading | Viewing

record game_state =
  transmission :: "transmission option"
  status :: status

record app =
  state :: game_state
  activeLead :: "(lead \<times> lead_details option) option"
  showKeyModal :: bool
  user :: "jsstring option"
  hasApiKey :: bool
  saved :: "transmission list"

definition canGenerate :: "app \<Rightarrow> bool" where
  "canGenerate a \<longleftrightarrow> user a \<noteq> None \<or> hasApiKey a"


datatype field_type = SensoryField | DossierField | ImageField

text \<open>\<open>{ ...lead.details.sensory, [sensoryField]: newValue }\<close>: the key keeps its place
  when the object has it, and comes last when it has not.\<close>

definition withField :: "sensory \<Rightarrow> sensory_field \<Rightarrow> jsstring \<Rightarrow> sensory" where
  "withField s fieldName v = AList.update (fieldKey fieldName) v s"

text \<open>The end of the handler's \<open>try\<close>: the details go to every lead of the transmission
  with the lead's id, the transmission is saved, and the open dossier shows them.\<close>

definition commitDetails :: "lead \<Rightarrow> lead_details \<Rightarrow> app \<Rightarrow> app" where
  "commitDetails lead updatedDetails a =
     (let a1 =
            (case transmission (state a) of
               None \<Rightarrow> a
             | Some t \<Rightarrow>
                 (let updatedTransmission =
                        t\<lparr>leads := map (\<lambda>l. if leadId l = leadId lead
                                              then l\<lparr>details := Some updatedDetails\<rparr> else l)
                                     (leads t)\<rparr>
                  in a\<lparr>state := (state a)\<lparr>transmission := Some updatedTransmission\<rparr>,
                       saved := saved a @ [updatedTransmission]\<rparr>))
      in a1\<lparr>activeLead :=
              Some (lead\<lparr>details := Some updatedDetails\<rparr>, Some updatedDetails)\<rparr>)"

text \<open>The part of the handler between \<open>let updatedDetails = { ...lead.details }\<close> and the
  state update: the new details, or the error that sends the handler to its \<open>catch\<close>.\<close>

definition regenerateDetails ::
  "sdk \<Rightarrow> json \<Rightarrow> lead \<Rightarrow> lead_details \<Rightarrow> exposition \<Rightarrow> field_type \<Rightarrow> sensory_field option
     \<Rightarrow> world \<Rightarrow> (error + lead_details) \<times> world" where
  "regenerateDetails ai json lead d expo fieldType sensoryField w =
     (if fieldType = SensoryField \<and> sensoryField \<noteq> None then
        (case regenerateSensoryField ai json lead (the sensoryField) (sensory d) expo w of
           (Inl e, w') \<Rightarrow> (Inl e, w')
         | (Inr newValue, w') \<Rightarrow>
             (Inr (d\<lparr>sensory := withField (sensory d) (the sensoryField) newValue\<rparr>), w'))
      else if fieldType = DossierField then
        (case regenerateExpandedDescription ai json lead (sensory d) expo w of
           (Inl e, w') \<Rightarrow> (Inl e, w')
         | (Inr newDescription, w') \<Rightarrow> (Inr (d\<lparr>expandedDescription := newDescription\<rparr>), w'))
      else if fieldType = ImageField then
        (case regenerateLeadImage ai lead (sensory d) (expandedDescription d) expo w of
           (Inl e, w') \<Rightarrow> (Inl e, w')
         | (Inr newImageUrl, w') \<Rightarrow>
             (case newImageUrl of
                None \<Rightarrow> (Inr d, w')
              | Some u \<Rightarrow> if u = [] then (Inr d, w') else (Inr (d\<lparr>imageUrl := Some u\<rparr>), w')))
      else (Inr d, w))"

definition handleRegenerateDossierField ::
  "sdk \<Rightarrow> json \<Rightarrow> lead \<Rightarrow> field_type \<Rightarrow> sensory_field option \<Rightarrow> app \<Rightarrow> world \<Rightarrow> app \<times> world" where
  "handleRegenerateDossierField ai json lead fieldType sensoryField a w =
     (if \<not> canGenerate a then (a\<lparr>showKeyModal := True\<rparr>, w)
      else
        (case (details lead, transmission (state a)) of
           (None, _) \<Rightarrow> (a, w)
         | (Some d, None) \<Rightarrow> (a, w)
         | (Some d, Some t) \<Rightarrow>
             (case regenerateDetails ai json lead d (exposition t) fieldType sensoryField w of
                (Inl e, w') \<Rightarrow> (a, consoleError (js ''Regeneration failed:'') w')
              | (Inr updatedDetails, w') \<Rightarrow> (commitDetails lead updatedDetails a, w'))))"

section \<open>Notions of the specification and sample inputs\<close>

text \<open>The text a chunk carries: none when its \<open>text\<close> is \<open>undefined\<close>.\<close>

definition textOf :: "jsstring option \<Rightarrow> jsstring" where
  "textOf chunk = (case chunk of None \<Rightarrow> [] | Some t \<Rightarrow> t)"

text \<open>The texts a progress callback gets when it is called after every increment with
  everything accumulated so far, as the specification words it.\<close>

fun runningTexts :: "jsstring \<Rightarrow> jsstring option list \<Rightarrow> jsstring list" where
  "runningTexts acc [] = []"
| "runningTexts acc (chunk # rest) =
     (acc @ textOf chunk) # runningTexts (acc @ textOf chunk) rest"

text \<open>What an image stage is specified to return for the answer of the service: nothing
  for a failure or for a response without an inline image part, and otherwise the first
  inline part of the response as a data URI.\<close>

definition dataUri :: "inline_data \<Rightarrow> jsstring" where
  "dataUri d = js ''data:image/png;base64,'' @ render (inlineBytes d)"

definition imageOutcome :: "error + response \<Rightarrow> jsstring option" where
  "imageOutcome answer =
     (case answer of
        Inl e \<Rightarrow> None
      | Inr r \<Rightarrow>
          (case List.map_filter inlineData (responseParts r) of
             [] \<Rightarrow> None
           | d # _ \<Rightarrow> Some (dataUri d)))"






text \<open>One entry of a sensory record as a line of context, \<open>key: value\<close>.\<close>

definition contextLine :: "jsstring \<times> jsstring \<Rightarrow> jsstring" where
  "contextLine entry = fst entry @ js '': '' @ snd entry"

text \<open>Which of the detail-text calls of the loop throw, lead by lead: the call for a lead
  is the one the loop makes, in the world the loop has reached by then.\<close>

fun detailFailures ::
  "sdk \<Rightarrow> json \<Rightarrow> jsstring \<Rightarrow> jsstring \<Rightarrow> exposition \<Rightarrow> nat \<Rightarrow> nat \<Rightarrow> lead list \<Rightarrow> world
     \<Rightarrow> bool list" where
  "detailFailures ai json ttl summ expo n i [] w = []"
| "detailFailures ai json ttl summ expo n i (lead # rest) w =
     isl (fst (generateLeadInspectionText ai json lead ttl summ expo
                 (callback (processingLine n i lead) w)))
     # detailFailures ai json ttl summ expo n (i + 1) rest
         (snd (detailLead ai json ttl summ expo n i lead w))"

text \<open>The same for a whole run of \<open>generateFullTransmission\<close> that gets as far as the loop.\<close>

definition fullRunFailures :: "sdk \<Rightarrow> json \<Rightarrow> jsstring \<Rightarrow> world \<Rightarrow> bool list" where
  "fullRunFailures ai json theme w =
     (case generateStructure ai json theme w of
        (Inl e, w1) \<Rightarrow> []
      | (Inr t, w1) \<Rightarrow>
          detailFailures ai json (title t) (settingSummary t) (exposition t)
            (length (leads t)) 0 (leads t) (callback (scanLine (length (leads t))) w1))"

text \<open>
  What the detail generation of one lead yields in a given world: nothing when it fails,
  that is when the detail-text call throws or its answer is \<open>null\<close> or without a sensory
  record; and otherwise the details made of the answer's sensory record, the answer's
  description, and the image that the image stage returns for the answer's sight.
\<close>

definition detailOf ::
  "sdk \<Rightarrow> json \<Rightarrow> lead \<Rightarrow> jsstring \<Rightarrow> jsstring \<Rightarrow> exposition \<Rightarrow> world \<Rightarrow> lead_details option" where
  "detailOf ai json lead ttl summ expo w =
     (case generateLeadInspectionText ai json lead ttl summ expo w of
        (Inl e, w2) \<Rightarrow> None
      | (Inr None, w2) \<Rightarrow> None
      | (Inr (Some a), w2) \<Rightarrow>
          (case answerSensory a of
             None \<Rightarrow> None
           | Some s \<Rightarrow>
               Some \<lparr>sensory = s, expandedDescription = answerDescription a,
                     imageUrl =
                       (case fst (generateLeadInspectionImage ai lead ttl summ
                                    (render (getProp s (js ''sight''))) w2) of
                          Inl e \<Rightarrow> None
                        | Inr url \<Rightarrow> url)\<rparr>))"

text \<open>The same for every lead of the loop, each in the world the loop has reached by
  then, and for a whole run that gets as far as the loop.\<close>

fun detailResults ::
  "sdk \<Rightarrow> json \<Rightarrow> jsstring \<Rightarrow> jsstring \<Rightarrow> exposition \<Rightarrow> nat \<Rightarrow> nat \<Rightarrow> lead list \<Rightarrow> world
     \<Rightarrow> lead_details option list" where
  "detailResults ai json ttl summ expo n i [] w = []"
| "detailResults ai json ttl summ expo n i (lead # rest) w =
     detailOf ai json lead ttl summ expo (callback (processingLine n i lead) w)
     # detailResults ai json ttl summ expo n (i + 1) rest
         (snd (detailLead ai json ttl summ expo n i lead w))"

definition fullRunResults :: "sdk \<Rightarrow> json \<Rightarrow> jsstring \<Rightarrow> world \<Rightarrow> lead_details option list" where
  "fullRunResults ai json theme w =
     (case generateStructure ai json theme w of
        (Inl e, w1) \<Rightarrow> []
      | (Inr t, w1) \<Rightarrow>
          detailResults ai json (title t) (settingSummary t) (exposition t)
            (length (leads t)) 0 (leads t) (callback (scanLine (length (leads t))) w1))"

text \<open>A lead with what its detail generation yielded: as it was for nothing, with the
  details otherwise.\<close>

definition withResult :: "lead \<Rightarrow> lead_details option \<Rightarrow> lead" where
  "withResult lead r = (case r of None \<Rightarrow> lead | Some d \<Rightarrow> lead\<lparr>details := Some d\<rparr>)"

text \<open>The leads of what a run returns, none for an error.\<close>

definition leadsOf :: "error + transmission \<Rightarrow> lead list" where
  "leadsOf r = (case r of Inl e \<Rightarrow> [] | Inr t \<Rightarrow> leads t)"

text \<open>Sample inputs, for the instances below: a world without a key and one with a key,
  a stream of four chunks of which two carry no text, a service that answers every
  streamed call with it and every image call with a text part followed by two inline
  parts, and a parser that yields fixed values.\<close>

definition keylessWorld :: world where
  "keylessWorld =
     \<lparr>apiKeyItem = None, sent = [], shown = [], console = [], dateNow = 0, dateLocale = []\<rparr>"

definition keyedWorld :: world where
  "keyedWorld =
     \<lparr>apiKeyItem = Some (js ''k''), sent = [], shown = [], console = [], dateNow = 7,
      dateLocale = js ''11/3/2026''\<rparr>"

definition sampleChunks :: "jsstring option list" where
  "sampleChunks = [Some (js ''{''), Some [], None, Some (js ''}'')]"

definition sampleParts :: "part list" where
  "sampleParts =
     [\<lparr>partText = Some (js ''here''), inlineData = None\<rparr>,
      \<lparr>partText = None,
       inlineData = Some \<lparr>inlineBytes = Some (js ''AAA''), mimeType = Some (js ''image/png'')\<rparr>\<rparr>,
      \<lparr>partText = None,
       inlineData = Some \<lparr>inlineBytes = Some (js ''BBB''), mimeType = Some (js ''image/png'')\<rparr>\<rparr>]"

definition sampleSdk :: sdk where
  "sampleSdk =
     \<lparr>generateContentStream = (\<lambda>h k p. Inr \<lparr>chunks = sampleChunks, thrown = None\<rparr>),
      generateContent = (\<lambda>h k p.
        Inr \<lparr>candidates = Some [\<lparr>content = Some \<lparr>parts = Some sampleParts\<rparr>\<rparr>]\<rparr>)\<rparr>"

definition sampleExposition :: exposition where
  "sampleExposition = \<lparr>technology = js ''T'', society = js ''S'', environment = js ''E''\<rparr>"

definition sampleDetails :: lead_details where
  "sampleDetails =
     \<lparr>sensory = [(js ''sight'', js ''A''), (js ''sound'', js ''B''), (js ''smell'', js ''C''),
        (js ''vibe'', js ''D'')],
      expandedDescription = js ''E'', imageUrl = Some (js ''F'')\<rparr>"

definition sampleLead :: "jsstring \<Rightarrow> jsstring \<Rightarrow> lead" where
  "sampleLead i c =
     \<lparr>leadId = i, name = js ''Name'', description = js ''Text'', category = c,
      details = None\<rparr>"

definition sampleJson :: "lead list \<Rightarrow> json" where
  "sampleJson roster =
     \<lparr>parseTitleAndSetting = (\<lambda>s. Inr (js ''Title'', js ''Summary'')),
      parseExposition = (\<lambda>s. Inr sampleExposition),
      parseLeads = (\<lambda>s. Inr (Some roster)),
      parseInspection = (\<lambda>s. Inr (Some \<lparr>answerSensory = Some (sensory sampleDetails),
         answerDescription = expandedDescription sampleDetails\<rparr>)),
      parseFields = (\<lambda>s. Inr (\<lambda>key. js ''N'')),
      parseExpanded = (\<lambda>s. Inr (js ''G''))\<rparr>"

definition sampleTransmission :: "lead list \<Rightarrow> transmission" where
  "sampleTransmission roster =
     \<lparr>transmissionId = 1, createdAt = js ''11/3/2026'', title = js ''Title'',
      settingSummary = js ''Summary'', exposition = sampleExposition,
      headerImageUrl = None, leads = roster\<rparr>"

definition sampleApp :: "lead list \<Rightarrow> app" where
  "sampleApp roster =
     \<lparr>state = \<lparr>transmission = Some (sampleTransmission roster), status = Viewing\<rparr>,
      activeLead = None, showKeyModal = False, user = None, hasApiKey = True, saved = []\<rparr>"

text \<open>A service whose image calls come back without any candidate.\<close>

definition blindSdk :: sdk where
  "blindSdk = sampleSdk\<lparr>generateContent := (\<lambda>h k p. Inr \<lparr>candidates = None\<rparr>)\<rparr>"

text \<open>A lead with the details of the specification's example, a roster of three leads
  without details, and a service whose seventh call fails: in a full run over the
  roster that is the detail text of the second lead.\<close>

definition dossierLead :: lead where
  "dossierLead =
     \<lparr>leadId = js ''a'', name = js ''Name'', description = js ''Text'',
      category = js ''Events'', details = Some sampleDetails\<rparr>"

definition sampleRoster :: "lead list" where
  "sampleRoster =
     [sampleLead (js ''a'') (js ''Connections''), sampleLead (js ''b'') (js ''Locations''),
      sampleLead (js ''c'') (js ''Objects'')]"

definition flakySdk :: sdk where
  "flakySdk =
     sampleSdk\<lparr>generateContentStream := (\<lambda>h k p.
        if length h = 6 then Inl (ServiceError (js ''unavailable''))
        else Inr \<lparr>chunks = sampleChunks, thrown = None\<rparr>)\<rparr>"

text \<open>What the structure stages of a full run give with the sample service and parser.\<close>

definition sampleStructure :: transmission where
  "sampleStructure =
     \<lparr>transmissionId = 7, createdAt = js ''11/3/2026'', title = js ''Title'',
      settingSummary = js ''Summary'', exposition = sampleExposition,
      headerImageUrl = Some (js ''data:image/png;base64,AAA''), leads = sampleRoster\<rparr>"

text \<open>A service that delivers the text of \<open>sampleChunks\<close> in one chunk.\<close>

definition coarseSdk :: sdk where
  "coarseSdk =
     sampleSdk\<lparr>generateContentStream := (\<lambda>h k p.
        Inr \<lparr>chunks = [Some (js ''{}'')], thrown = None\<rparr>)\<rparr>"

text \<open>The details that the sample service and parser give a lead in a full run, and a
  service and parser for which the detail text of the second lead throws and that of
  the third comes back as the JSON text \<open>null\<close>.\<close>

definition filledDetails :: lead_details where
  "filledDetails = sampleDetails\<lparr>imageUrl := Some (js ''data:image/png;base64,AAA'')\<rparr>"

definition nullChunks :: "jsstring option list" where
  "nullChunks = [Some (js ''null'')]"

definition gapSdk :: sdk where
  "gapSdk =
     sampleSdk\<lparr>generateContentStream := (\<lambda>h k p.
        if length h = 6 then Inl (ServiceError (js ''unavailable''))
        else if length h = 7 then Inr \<lparr>chunks = nullChunks, thrown = None\<rparr>
        else Inr \<lparr>chunks = sampleChunks, thrown = None\<rparr>)\<rparr>"

definition gapJson :: json where
  "gapJson =
     (sampleJson sampleRoster)\<lparr>parseInspection := (\<lambda>s.
        if s = js ''null'' then Inr None
        else Inr (Some \<lparr>answerSensory = Some (sensory sampleDetails),
          answerDescription = expandedDescription sampleDetails\<rparr>))\<rparr>"

section \<open>Properties\<close>

subsection \<open>Fence stripping\<close>

text \<open>After the replacement no fence is left, so a second replacement finds nothing;
  trimming only removes from the two ends.\<close>

lemma fence_prefix_json: "prefix fence_json xs \<Longrightarrow> prefix fence xs"
  by (auto simp: fence_json_def prefix_def)

lemma fence_prefix_json_nl: "prefix fence_json_nl xs \<Longrightarrow> prefix fence xs"
  by (auto simp: fence_json_nl_def fence_json_def prefix_def)

lemma replaceFences_plain:
  "\<not> prefix fence (c # cs) \<Longrightarrow> replaceFences (c # cs) = c # replaceFences cs"
  using fence_prefix_json fence_prefix_json_nl by (auto simp: replaceFences.simps(2))

lemma replaceFences_fixed: "\<not> sublist fence xs \<Longrightarrow> replaceFences xs = xs"
proof (induction xs)
  case Nil
  then show ?case by simp
next
  case (Cons c cs)
  then have "\<not> prefix fence (c # cs)" and "\<not> sublist fence cs"
    by (auto simp: sublist_Cons_right)
  with Cons.IH show ?case by (simp add: replaceFences_plain)
qed

lemma one_tick_kept: "\<not> prefix [96] xs \<Longrightarrow> \<not> prefix [96] (replaceFences xs)"
proof (cases xs)
  case Nil
  then show ?thesis by simp
next
  case (Cons c cs)
  assume "\<not> prefix [96] xs"
  with Cons have c: "c \<noteq> 96" by simp
  then have "\<not> prefix fence (c # cs)" by (simp add: fence_def)
  with Cons c show ?thesis by (simp add: replaceFences_plain)
qed

lemma two_ticks_kept: "\<not> prefix [96, 96] xs \<Longrightarrow> \<not> prefix [96, 96] (replaceFences xs)"
proof (cases xs)
  case Nil
  then show ?thesis by simp
next
  case (Cons c cs)
  assume a: "\<not> prefix [96, 96] xs"
  have "prefix [96, 96] cs \<Longrightarrow> prefix [96] cs" by (auto simp: prefix_def)
  with a Cons have nf: "\<not> prefix fence (c # cs)" by (auto simp: fence_def)
  from a Cons have "c \<noteq> 96 \<or> \<not> prefix [96] cs" by auto
  with Cons nf one_tick_kept [of cs] show ?thesis by (auto simp: replaceFences_plain)
qed

lemma no_fence_in_front: "\<not> prefix fence xs \<Longrightarrow> \<not> prefix fence (replaceFences xs)"
proof (cases xs)
  case Nil
  then show ?thesis by (simp add: fence_def)
next
  case (Cons c cs)
  assume a: "\<not> prefix fence xs"
  with Cons have "c \<noteq> 96 \<or> \<not> prefix [96, 96] cs" by (auto simp: fence_def)
  with Cons a two_ticks_kept [of cs] show ?thesis by (auto simp: replaceFences_plain fence_def)
qed

lemma replaceFences_no_fence: "\<not> sublist fence (replaceFences xs)"
proof (induction xs rule: replaceFences.induct)
  case 1
  then show ?case by (simp add: fence_def)
next
  case (2 c cs)
  show ?case
  proof (cases "prefix fence (c # cs)")
    case True
    with 2 show ?thesis by (auto simp: replaceFences.simps(2) simp del: drop_Suc_Cons)
  next
    case False
    then have eq: "replaceFences (c # cs) = c # replaceFences cs"
      by (rule replaceFences_plain)
    from False have "\<not> prefix fence_json_nl (c # cs)" "\<not> prefix fence_json (c # cs)"
      using fence_prefix_json fence_prefix_json_nl by blast+
    with 2 False have "\<not> sublist fence (replaceFences cs)" by simp
    moreover from False have "\<not> prefix fence (replaceFences (c # cs))"
      by (rule no_fence_in_front)
    ultimately show ?thesis unfolding eq by (simp add: sublist_Cons_right)
  qed
qed

lemma trim_sublist: "sublist (trim s) s"
proof -
  have "sublist (rev (dropWhile isWhiteSpace (rev (dropWhile isWhiteSpace s)))) (dropWhile isWhiteSpace s)"
    by (metis rev_rev_ident sublist_rev sublist_dropWhile)
  moreover have "sublist (dropWhile isWhiteSpace s) s"
    by (rule sublist_dropWhile)
  ultimately show ?thesis
    unfolding trim_def by (rule sublist_order.order_trans)
qed

lemma prefix_hd: "prefix b a \<Longrightarrow> b \<noteq> [] \<Longrightarrow> hd b = hd a \<and> a \<noteq> []"
  by (cases b) (auto simp: prefix_def)

lemma dropWhile_trimmed_end:
  "dropWhile P (rev (dropWhile P (rev (dropWhile P s)))) = rev (dropWhile P (rev (dropWhile P s)))"
proof -
  define a where "a = dropWhile P s"
  define b where "b = rev (dropWhile P (rev a))"
  have "dropWhile P b = b"
  proof (cases "b = []")
    case True
    then show ?thesis by simp
  next
    case False
    have "prefix b a"
      unfolding b_def by (metis rev_rev_ident suffix_to_prefix suffix_dropWhile)
    with False have "hd b = hd a" and "a \<noteq> []"
      using prefix_hd by blast+
    then have "\<not> P (hd b)"
      using hd_dropWhile [of P s] by (simp add: a_def)
    with False show ?thesis
      by (simp add: dropWhile_eq_self_iff)
  qed
  then show ?thesis
    by (simp add: a_def b_def)
qed

lemma trim_idem: "trim (trim s) = trim s"
  unfolding trim_def by (simp add: dropWhile_trimmed_end)

lemma trim_no_fence: "\<not> sublist fence s \<Longrightarrow> \<not> sublist fence (trim s)"
  using trim_sublist [of s] sublist_order.order_trans by blast

lemma clean_idem: "clean (clean t) = clean t"
proof -
  have "\<not> sublist fence (clean t)"
    unfolding clean_def by (intro trim_no_fence replaceFences_no_fence)
  then have "replaceFences (clean t) = clean t"
    by (rule replaceFences_fixed)
  then show ?thesis
    by (simp add: clean_def trim_idem)
qed

text \<open>
  C6. Cleaning twice is cleaning once: for every accumulated text \<open>T\<close>, fenced or not,
  with or without the \<open>json\<close> tag, \<open>clean (clean T)\<close> is \<open>clean T\<close>, and the end of
  \<open>streamJson\<close> hands the same text to the parser and returns the same result from
  \<open>clean T\<close> as from \<open>T\<close>.
\<close>

theorem clean_twice_parses_alike:
  "clean (clean T) = clean T \<and> parseClean parse (clean T) w = parseClean parse T w"
  by (simp add: parseClean_def clean_idem)

subsection \<open>The stream aggregator\<close>

lemma accumulate_eq:
  "accumulate u cs acc w =
     (acc @ concat (map textOf cs),
      if u then w\<lparr>shown := shown w @ runningTexts acc (filter (\<lambda>c. textOf c \<noteq> []) cs)\<rparr>
      else w)"
proof (induction cs arbitrary: acc w)
  case Nil
  then show ?case by simp
next
  case (Cons c cs)
  show ?case
  proof (cases c)
    case None
    then show ?thesis by (simp add: Cons.IH textOf_def)
  next
    case (Some t)
    then show ?thesis by (simp add: Cons.IH textOf_def callback_def)
  qed
qed

lemma fst_parseClean: "fst (parseClean parse T w) = parse (clean T)"
  by (simp add: parseClean_def Let_def split: sum.splits)

lemma shown_parseClean: "shown (snd (parseClean parse T w)) = shown w"
  by (simp add: parseClean_def Let_def consoleError_def split: sum.splits)

lemma streamJson_ok:
  assumes "getAI w = Inr k"
    and "generateContentStream ai (sent w) k \<lparr>model = m, contents = c, config = cfg\<rparr> = Inr r"
    and "thrown r = None"
  shows "streamJson ai parse m c cfg u w =
     parseClean parse (concat (map textOf (chunks r)))
       (if u then (record_call (StreamCall k \<lparr>model = m, contents = c, config = cfg\<rparr>) w)
                   \<lparr>shown := shown w @ runningTexts [] (filter (\<lambda>c. textOf c \<noteq> []) (chunks r))\<rparr>
        else record_call (StreamCall k \<lparr>model = m, contents = c, config = cfg\<rparr>) w)"
  using assms by (simp add: streamJson_def Let_def accumulate_eq record_call_def)

lemma getAI_keyed: "getAI keyedWorld = Inr (js ''k'')"
  by (simp add: getAI_def getApiKey_def keyedWorld_def js_def)

lemma keyedWorld_logs: "shown keyedWorld = []" "sent keyedWorld = []"
  by (simp_all add: keyedWorld_def)

lemma sample_stream:
  "generateContentStream sampleSdk h k p = Inr \<lparr>chunks = sampleChunks, thrown = None\<rparr>"
  by (simp add: sampleSdk_def)

text \<open>
  C5, as the code has it. When the key is there and the stream ends without an error,
  \<open>streamJson\<close> returns what the parser makes of the cleaned concatenation of all
  increments, so two streams with the same concatenation give the same result, whatever
  their chunks. The progress callback, when one was passed, is called after every
  increment that carries a non-empty text, with the concatenation so far; an increment
  whose text is empty or \<open>undefined\<close> brings no call.
\<close>

theorem streamJson_aggregates:
  assumes "getAI w = Inr k"
    and "generateContentStream ai (sent w) k \<lparr>model = m, contents = c, config = cfg\<rparr> = Inr r"
    and "thrown r = None"
  shows "fst (streamJson ai parse m c cfg onUpdate w) =
           parse (clean (concat (map textOf (chunks r))))
    \<and> shown (snd (streamJson ai parse m c cfg True w)) =
        shown w @ runningTexts [] (filter (\<lambda>c. textOf c \<noteq> []) (chunks r))
    \<and> shown (snd (streamJson ai parse m c cfg False w)) = shown w
    \<and> (\<forall>ai' r'.
          generateContentStream ai' (sent w) k \<lparr>model = m, contents = c, config = cfg\<rparr> = Inr r'
          \<and> thrown r' = None
          \<and> concat (map textOf (chunks r')) = concat (map textOf (chunks r))
          \<longrightarrow> fst (streamJson ai' parse m c cfg onUpdate w) =
              fst (streamJson ai parse m c cfg onUpdate w))"
  using assms by (simp add: streamJson_ok fst_parseClean shown_parseClean record_call_def)

theorem streamJson_aggregates_witness:
  "getAI keyedWorld = Inr (js ''k'')
   \<and> generateContentStream sampleSdk (sent keyedWorld) (js ''k'')
        \<lparr>model = flashModel, contents = Prompt [], config = jsonConfig STRING\<rparr>
      = Inr \<lparr>chunks = sampleChunks, thrown = None\<rparr>
   \<and> generateContentStream coarseSdk (sent keyedWorld) (js ''k'')
        \<lparr>model = flashModel, contents = Prompt [], config = jsonConfig STRING\<rparr>
      = Inr \<lparr>chunks = [Some (js ''{}'')], thrown = None\<rparr>
   \<and> fst (streamJson sampleSdk (parseExpanded (sampleJson [])) flashModel (Prompt [])
        (jsonConfig STRING) True keyedWorld) = Inr (js ''G'')
   \<and> shown (snd (streamJson sampleSdk (parseExpanded (sampleJson [])) flashModel (Prompt [])
        (jsonConfig STRING) True keyedWorld)) = [js ''{'', js ''{}'']
   \<and> fst (streamJson coarseSdk (parseExpanded (sampleJson [])) flashModel (Prompt [])
        (jsonConfig STRING) True keyedWorld) =
      fst (streamJson sampleSdk (parseExpanded (sampleJson [])) flashModel (Prompt [])
        (jsonConfig STRING) True keyedWorld)"
proof -
  have a: "getAI keyedWorld = Inr (js ''k'')" by (rule getAI_keyed)
  have b: "generateContentStream sampleSdk (sent keyedWorld) (js ''k'')
        \<lparr>model = flashModel, contents = Prompt [], config = jsonConfig STRING\<rparr>
      = Inr \<lparr>chunks = sampleChunks, thrown = None\<rparr>"
    by (rule sample_stream)
  have c: "thrown \<lparr>chunks = sampleChunks, thrown = None\<rparr> = None" by simp
  have d: "generateContentStream coarseSdk (sent keyedWorld) (js ''k'')
        \<lparr>model = flashModel, contents = Prompt [], config = jsonConfig STRING\<rparr>
      = Inr \<lparr>chunks = [Some (js ''{}'')], thrown = None\<rparr>"
    by (simp add: coarseSdk_def)
  have e: "concat (map textOf (chunks \<lparr>chunks = [Some (js ''{}'')], thrown = None\<rparr>)) =
      concat (map textOf (chunks \<lparr>chunks = sampleChunks, thrown = None\<rparr>))"
    by (simp add: sampleChunks_def textOf_def js_def)
  note t = streamJson_aggregates [OF a b c, of "parseExpanded (sampleJson [])" True]
  from t have "fst (streamJson coarseSdk (parseExpanded (sampleJson [])) flashModel (Prompt [])
        (jsonConfig STRING) True keyedWorld) =
      fst (streamJson sampleSdk (parseExpanded (sampleJson [])) flashModel (Prompt [])
        (jsonConfig STRING) True keyedWorld)"
    using d e by auto
  with t a b d show ?thesis
    by (simp add: sampleJson_def sampleChunks_def textOf_def keyedWorld_logs js_def)
qed

theorem callback_skips_empty_increments:
  "shown (snd (streamJson sampleSdk (parseExpanded (sampleJson [])) flashModel (Prompt [])
        (jsonConfig STRING) True keyedWorld)) \<noteq> shown keyedWorld @ runningTexts [] sampleChunks"
  by (simp add: streamJson_def getAI_keyed sample_stream Let_def record_call_def
      sampleChunks_def callback_def textOf_def keyedWorld_logs js_def shown_parseClean)

subsection \<open>The credential precondition\<close>

lemma getAI_keyless: "getApiKey w = None \<Longrightarrow> getAI w = Inl missingApiKey"
  by (simp add: getAI_def)

lemma streamJson_keyless:
  "getApiKey w = None \<Longrightarrow> streamJson ai parse m c cfg u w = (Inl missingApiKey, w)"
  by (simp add: streamJson_def getAI_keyless)

lemma imageAttempt_keyless:
  "getApiKey w = None \<Longrightarrow> imageAttempt ai p w = (Inl missingApiKey, w)"
  by (simp add: imageAttempt_def getAI_keyless)

lemma catchImage_keyless:
  "getApiKey w = None \<Longrightarrow>
     catchImage label (imageAttempt ai p w) = (Inr None, consoleError label w)"
  by (simp add: imageAttempt_keyless catchImage_def)

lemma sent_consoleError: "sent (consoleError l w) = sent w"
  by (simp add: consoleError_def)

lemma sent_callback: "sent (callback l w) = sent w"
  by (simp add: callback_def)

lemma getApiKey_callback: "getApiKey (callback l w) = getApiKey w"
  by (simp add: callback_def getApiKey_def)

lemma getApiKey_keyless: "getApiKey keylessWorld = None"
  by (simp add: getApiKey_def keylessWorld_def)

text \<open>
  C2, as the code has it. Without a resolvable key (no item in the local storage, or an
  empty one) every structured-text stage, and with them the full run, fails with the
  missing-key error and leaves the world as it was: no call reaches the service. Every
  image stage makes no call either, but the error is caught inside the stage, which
  returns \<open>undefined\<close> and logs.
\<close>

theorem missing_key_stops_before_network:
  assumes "getApiKey w = None"
  shows "generateTitleAndSetting ai json theme u w = (Inl missingApiKey, w)
    \<and> generateExposition ai json theme ttl summ u w = (Inl missingApiKey, w)
    \<and> generateLeads ai json theme ttl summ expo u w = (Inl missingApiKey, w)
    \<and> generateLeadInspectionText ai json lead ttl summ expo w = (Inl missingApiKey, w)
    \<and> regenerateSensoryField ai json lead f sens expo w = (Inl missingApiKey, w)
    \<and> regenerateExpandedDescription ai json lead sens expo w = (Inl missingApiKey, w)
    \<and> fst (generateTransmissionHeader ai ttl summ expo w) = Inr None
    \<and> sent (snd (generateTransmissionHeader ai ttl summ expo w)) = sent w
    \<and> fst (generateLeadInspectionImage ai lead ttl summ s w) = Inr None
    \<and> sent (snd (generateLeadInspectionImage ai lead ttl summ s w)) = sent w
    \<and> fst (regenerateLeadImage ai lead sens expanded expo w) = Inr None
    \<and> sent (snd (regenerateLeadImage ai lead sens expanded expo w)) = sent w
    \<and> fst (generateFullTransmission ai json theme w) = Inl missingApiKey
    \<and> sent (snd (generateFullTransmission ai json theme w)) = sent w"
  using assms
  by (simp add: generateTitleAndSetting_def generateExposition_def generateLeads_def
      generateLeadInspectionText_def regenerateSensoryField_def regenerateExpandedDescription_def
      generateTransmissionHeader_def generateLeadInspectionImage_def regenerateLeadImage_def
      generateFullTransmission_def generateStructure_def Let_def
      streamJson_keyless catchImage_keyless sent_consoleError sent_callback getApiKey_callback)

theorem missing_key_stops_before_network_witness:
  "getApiKey keylessWorld = None
   \<and> generateLeads sampleSdk (sampleJson []) (js ''theme'') (js ''Title'') (js ''Summary'')
        sampleExposition False keylessWorld = (Inl missingApiKey, keylessWorld)
   \<and> fst (generateTransmissionHeader sampleSdk (js ''Title'') (js ''Summary'') sampleExposition
        keylessWorld) = Inr None
   \<and> sent (snd (generateTransmissionHeader sampleSdk (js ''Title'') (js ''Summary'')
        sampleExposition keylessWorld)) = []"
  using missing_key_stops_before_network [OF getApiKey_keyless, of sampleSdk "sampleJson []"
      "js ''theme''" False "js ''Title''" "js ''Summary''" sampleExposition]
    getApiKey_keyless
  by (simp add: keylessWorld_def)

theorem image_stage_swallows_missing_key:
  "getApiKey keylessWorld = None
   \<and> fst (generateTransmissionHeader sampleSdk (js ''Title'') (js ''Summary'') sampleExposition
        keylessWorld) \<noteq> Inl missingApiKey"
  by (simp add: getApiKey_keyless generateTransmissionHeader_def catchImage_keyless)

subsection \<open>The lead roster\<close>

text \<open>
  C7. Whatever array of leads the response parses to, of any length and with any
  categories, \<open>generateLeads\<close> returns that array as it is and throws nothing: no count
  and no split is checked.
\<close>

theorem generateLeads_accepts_any_roster:
  assumes "getAI w = Inr k"
    and "generateContentStream ai (sent w) k
           \<lparr>model = flashModel, contents = Prompt (leadsPrompt ttl summary expo),
            config = jsonConfig leadsSchema\<rparr> = Inr r"
    and "thrown r = None"
    and "parseLeads json (clean (concat (map textOf (chunks r)))) = Inr (Some roster)"
  shows "fst (generateLeads ai json theme ttl summary expo onUpdate w) = Inr roster"
  using assms
  by (simp add: generateLeads_def streamJson_ok parseClean_def Let_def)

theorem generateLeads_accepts_any_roster_witness:
  "getAI keyedWorld = Inr (js ''k'')
   \<and> parseLeads (sampleJson (replicate 7 (sampleLead (js ''a'') (js ''Connections''))))
        (clean (concat (map textOf sampleChunks)))
       = Inr (Some (replicate 7 (sampleLead (js ''a'') (js ''Connections''))))
   \<and> fst (generateLeads sampleSdk
        (sampleJson (replicate 7 (sampleLead (js ''a'') (js ''Connections''))))
        (js ''theme'') (js ''Title'') (js ''Summary'') sampleExposition False keyedWorld)
       = Inr (replicate 7 (sampleLead (js ''a'') (js ''Connections'')))"
proof -
  have a: "getAI keyedWorld = Inr (js ''k'')" by (rule getAI_keyed)
  have b: "generateContentStream sampleSdk (sent keyedWorld) (js ''k'')
           \<lparr>model = flashModel,
            contents = Prompt (leadsPrompt (js ''Title'') (js ''Summary'') sampleExposition),
            config = jsonConfig leadsSchema\<rparr> = Inr \<lparr>chunks = sampleChunks, thrown = None\<rparr>"
    by (rule sample_stream)
  have c: "thrown \<lparr>chunks = sampleChunks, thrown = None\<rparr> = None" by simp
  have d: "parseLeads (sampleJson (replicate 7 (sampleLead (js ''a'') (js ''Connections''))))
        (clean (concat (map textOf (chunks \<lparr>chunks = sampleChunks, thrown = None\<rparr>))))
       = Inr (Some (replicate 7 (sampleLead (js ''a'') (js ''Connections''))))"
    by (simp add: sampleJson_def)
  from generateLeads_accepts_any_roster [OF a b c d] a d show ?thesis by simp
qed

subsection \<open>The image stages\<close>

lemma firstInlineData_eq:
  "firstInlineData ps =
     (case List.map_filter inlineData ps of [] \<Rightarrow> None | d # _ \<Rightarrow> Some (dataUri d))"
  by (induction ps) (simp_all add: map_filter_simps dataUri_def split: option.splits)

lemma imageAttempt_keyed:
  "getAI w = Inr k \<Longrightarrow>
     catchImage label (imageAttempt ai p w) =
       (Inr (imageOutcome (generateContent ai (sent w) k p)),
        case generateContent ai (sent w) k p of
          Inl e \<Rightarrow> consoleError label (record_call (ContentCall k p) w)
        | Inr r \<Rightarrow> record_call (ContentCall k p) w)"
  by (simp add: imageAttempt_def catchImage_def imageOutcome_def firstInlineData_eq Let_def
      split: sum.splits)

lemma getAI_cases: "getAI w = Inl missingApiKey \<and> getApiKey w = None \<or> (\<exists>k. getAI w = Inr k)"
  by (auto simp: getAI_def getApiKey_def split: option.splits)

lemma image_stage_outcome:
  "fst (catchImage label (imageAttempt ai p w)) =
     Inr (case getAI w of
            Inl e \<Rightarrow> None
          | Inr k \<Rightarrow> imageOutcome (generateContent ai (sent w) k p))"
proof -
  from getAI_cases [of w] show ?thesis
  proof
    assume "getAI w = Inl missingApiKey \<and> getApiKey w = None"
    then show ?thesis by (simp add: catchImage_keyless)
  next
    assume "\<exists>k. getAI w = Inr k"
    then obtain k where "getAI w = Inr k" ..
    then show ?thesis by (simp add: imageAttempt_keyed)
  qed
qed

text \<open>
  C9. Each of the three image stages always returns, never an error: \<open>undefined\<close> when
  the key is missing, when the call on the service throws, or when the parts of the
  response (those of its first candidate, the ones the code reads) hold no inline data;
  and otherwise the data URI of the first part that holds inline data.
\<close>

theorem image_stages_never_throw:
  "fst (generateTransmissionHeader ai ttl summary expo w) =
     Inr (case getAI w of
            Inl e \<Rightarrow> None
          | Inr k \<Rightarrow> imageOutcome (generateContent ai (sent w) k
              \<lparr>model = imageModel, contents = Parts [headerPrompt ttl summary expo],
               config = imageConfig (js ''16:9'')\<rparr>))
   \<and> fst (generateLeadInspectionImage ai lead ttl summary sensorySight w) =
     Inr (case getAI w of
            Inl e \<Rightarrow> None
          | Inr k \<Rightarrow> imageOutcome (generateContent ai (sent w) k
              (inspectionImageParams lead ttl summary sensorySight)))
   \<and> fst (regenerateLeadImage ai lead sens expanded expo w) =
     Inr (case getAI w of
            Inl e \<Rightarrow> None
          | Inr k \<Rightarrow> imageOutcome (generateContent ai (sent w) k
              (regenerateImageParams lead sens expanded expo)))"
  by (simp add: generateTransmissionHeader_def generateLeadInspectionImage_def
      regenerateLeadImage_def image_stage_outcome)

theorem image_stages_never_throw_witness:
  "fst (generateTransmissionHeader sampleSdk (js ''Title'') (js ''Summary'') sampleExposition
      keyedWorld) = Inr (Some (js ''data:image/png;base64,AAA''))
   \<and> fst (regenerateLeadImage blindSdk (sampleLead (js ''a'') (js ''Events''))
        (sensory sampleDetails) (js ''E'') sampleExposition keyedWorld) = Inr None"
  using image_stages_never_throw [of sampleSdk "js ''Title''" "js ''Summary''" sampleExposition
      keyedWorld]
    image_stages_never_throw [where ai = blindSdk and w = keyedWorld
      and lead = "sampleLead (js ''a'') (js ''Events'')" and sens = "sensory sampleDetails"
      and expanded = "js ''E''" and expo = sampleExposition]
  by (simp add: getAI_keyed sampleSdk_def blindSdk_def imageOutcome_def responseParts_def
      sampleParts_def map_filter_simps dataUri_def render_def js_def)



lemma sublist_concat_here: "sublist (a @ b @ c) (concat (a # b # c # ys))"
  by (metis append.assoc concat.simps(2) sublist_append_rightI sublist_order.order_refl)

lemma sublist_concat_skip: "sublist s (concat ys) \<Longrightarrow> sublist s (concat (y # ys))"
proof -
  assume "sublist s (concat ys)"
  then obtain ps ss where "concat ys = ps @ s @ ss"
    by (auto simp: sublist_def)
  then have "concat (y # ys) = (y @ ps) @ s @ ss"
    by simp
  then show ?thesis
    unfolding sublist_def by blast
qed



subsection \<open>The handlers\<close>

lemma sample_app:
  "canGenerate (sampleApp roster)"
  "transmission (state (sampleApp roster)) = Some (sampleTransmission roster)"
  "leads (sampleTransmission roster) = roster"
  "exposition (sampleTransmission roster) = sampleExposition"
  by (simp_all add: canGenerate_def sampleApp_def sampleTransmission_def)

lemma dossierLead_fields:
  "details dossierLead = Some sampleDetails"
  "leadId dossierLead = js ''a''"
  by (simp_all add: dossierLead_def)



lemma commitDetails_state:
  "transmission (state a) = Some t \<Longrightarrow>
     transmission (state (commitDetails lead d a)) =
       Some (t\<lparr>leads := map (\<lambda>l. if leadId l = leadId lead then l\<lparr>details := Some d\<rparr> else l)
                           (leads t)\<rparr>)
     \<and> activeLead (commitDetails lead d a) = Some (lead\<lparr>details := Some d\<rparr>, Some d)"
  by (simp add: commitDetails_def Let_def)

text \<open>
  C10. When the handler is asked for a new image of a lead that has details and the
  image stage returns \<open>undefined\<close>, the details it writes back are the lead's details
  as they were, image included: they go to the leads of the transmission with the lead's
  id and to the open dossier, and a transmission whose leads with that id already had
  these details is left as it was.
\<close>

theorem failed_image_regeneration_keeps_details:
  assumes "canGenerate a"
    and "details lead = Some d"
    and "transmission (state a) = Some t"
    and "fst (regenerateLeadImage ai lead (sensory d) (expandedDescription d) (exposition t) w)
           = Inr None"
  shows "fst (handleRegenerateDossierField ai json lead ImageField sensoryField a w) =
           commitDetails lead d a
    \<and> transmission (state (fst (handleRegenerateDossierField ai json lead ImageField
          sensoryField a w))) =
        Some (t\<lparr>leads := map (\<lambda>l. if leadId l = leadId lead then l\<lparr>details := Some d\<rparr> else l)
                            (leads t)\<rparr>)
    \<and> activeLead (fst (handleRegenerateDossierField ai json lead ImageField sensoryField a w)) =
        Some (lead, Some d)
    \<and> ((\<forall>l \<in> set (leads t). leadId l = leadId lead \<longrightarrow> details l = Some d) \<longrightarrow>
         transmission (state (fst (handleRegenerateDossierField ai json lead ImageField
           sensoryField a w))) = Some t)"
proof -
  obtain r w' where r: "regenerateLeadImage ai lead (sensory d) (expandedDescription d)
      (exposition t) w = (r, w')"
    by (cases "regenerateLeadImage ai lead (sensory d) (expandedDescription d) (exposition t) w")
  with assms(4) have r': "r = Inr None" by simp
  have h: "fst (handleRegenerateDossierField ai json lead ImageField sensoryField a w) =
           commitDetails lead d a"
    using assms(1-3) r r'
    by (simp add: handleRegenerateDossierField_def regenerateDetails_def)
  have same: "lead\<lparr>details := Some d\<rparr> = lead"
    using assms(2) by simp
  have keep: "(\<forall>l \<in> set (leads t). leadId l = leadId lead \<longrightarrow> details l = Some d) \<longrightarrow>
      map (\<lambda>l. if leadId l = leadId lead then l\<lparr>details := Some d\<rparr> else l) (leads t) = leads t"
    by (auto simp: map_idI)
  show ?thesis
    using h commitDetails_state [OF assms(3), of lead d] same keep
    by auto
qed

theorem failed_image_regeneration_keeps_details_witness:
  "canGenerate (sampleApp [dossierLead])
   \<and> details dossierLead = Some sampleDetails
   \<and> fst (regenerateLeadImage blindSdk dossierLead (sensory sampleDetails)
        (expandedDescription sampleDetails) (exposition (sampleTransmission [dossierLead]))
        keyedWorld) = Inr None
   \<and> leads (sampleTransmission [dossierLead]) = [dossierLead]
   \<and> transmission (state (fst (handleRegenerateDossierField blindSdk (sampleJson [])
        dossierLead ImageField None (sampleApp [dossierLead]) keyedWorld))) =
      Some (sampleTransmission [dossierLead])
   \<and> activeLead (fst (handleRegenerateDossierField blindSdk (sampleJson [])
        dossierLead ImageField None (sampleApp [dossierLead]) keyedWorld)) =
      Some (dossierLead, Some sampleDetails)"
proof -
  have a: "canGenerate (sampleApp [dossierLead])" by (rule sample_app)
  have b: "details dossierLead = Some sampleDetails" by (rule dossierLead_fields)
  have c: "transmission (state (sampleApp [dossierLead])) = Some (sampleTransmission [dossierLead])"
    by (rule sample_app)
  have d: "fst (regenerateLeadImage blindSdk dossierLead (sensory sampleDetails)
        (expandedDescription sampleDetails) (exposition (sampleTransmission [dossierLead]))
        keyedWorld) = Inr None"
    by (simp add: regenerateLeadImage_def image_stage_outcome getAI_keyed blindSdk_def
        imageOutcome_def responseParts_def map_filter_simps)
  have e: "\<forall>l \<in> set (leads (sampleTransmission [dossierLead])).
        leadId l = leadId dossierLead \<longrightarrow> details l = Some sampleDetails"
    by (simp add: sample_app dossierLead_fields)
  note t = failed_image_regeneration_keeps_details [OF a b c d, of "sampleJson []" None]
  from t e have s: "transmission (state (fst (handleRegenerateDossierField blindSdk
        (sampleJson []) dossierLead ImageField None (sampleApp [dossierLead]) keyedWorld))) =
      Some (sampleTransmission [dossierLead])"
    by blast
  from t have l: "activeLead (fst (handleRegenerateDossierField blindSdk (sampleJson [])
        dossierLead ImageField None (sampleApp [dossierLead]) keyedWorld)) =
      Some (dossierLead, Some sampleDetails)"
    by blast
  have r: "leads (sampleTransmission [dossierLead]) = [dossierLead]"
    by (rule sample_app)
  from a b d r s l show ?thesis by (intro conjI)
qed

lemma regenerateSensoryField_ok:
  assumes "getAI w = Inr k"
    and "generateContentStream ai (sent w) k (sensoryFieldParams lead f s expo) = Inr r"
    and "thrown r = None"
    and "parseFields json (clean (concat (map textOf (chunks r)))) = Inr result"
  shows "regenerateSensoryField ai json lead f s expo w =
     (Inr (result (fieldKey f)), record_call (StreamCall k (sensoryFieldParams lead f s expo)) w)"
proof -
  define p where "p = sensoryFieldParams lead f s expo"
  have p: "\<lparr>model = model p, contents = contents p, config = config p\<rparr> = p"
    by simp
  have "generateContentStream ai (sent w) k
      \<lparr>model = model p, contents = contents p, config = config p\<rparr> = Inr r"
    unfolding p using assms(2) by (simp add: p_def)
  from streamJson_ok [OF assms(1) this assms(3), of "parseFields json" False] assms(4)
  show ?thesis
    by (simp add: regenerateSensoryField_def Let_def parseClean_def p_def [symmetric] p)
qed

lemma withField_frame:
  "getProp (withField s f v) (fieldKey f) = Some v"
  "key \<noteq> fieldKey f \<Longrightarrow> getProp (withField s f v) key = getProp s key"
  by (simp_all add: getProp_def withField_def update_conv')

lemma filter_update_other:
  "filter (\<lambda>(key, val). key \<noteq> k) (AList.update k v s) = filter (\<lambda>(key, val). key \<noteq> k) s"
  by (induction s) auto

lemma otherFieldsOf_eq:
  "otherFieldsOf f s =
     join nl (map contextLine (filter (\<lambda>entry. fst entry \<noteq> fieldKey f) s))"
proof -
  have "(\<lambda>(key, val). concat [key, js '': '', val]) = contextLine"
    by (auto simp: contextLine_def)
  then show ?thesis
    by (simp add: otherFieldsOf_def entries_def case_prod_unfold)
qed

lemma otherFieldsOf_withField: "otherFieldsOf f (withField s f v) = otherFieldsOf f s"
  by (simp add: otherFieldsOf_def entries_def withField_def filter_update_other)

lemma sublist_join: "x \<in> set xs \<Longrightarrow> sublist x (join sep xs)"
proof (induction sep xs rule: join.induct)
  case (1 sep)
  then show ?case by simp
next
  case (2 sep x')
  then show ?case by simp
next
  case (3 sep x' y ys)
  show ?case
  proof (cases "x = x'")
    case True
    then show ?thesis by simp
  next
    case False
    with 3 have "sublist x (join sep (y # ys))" by simp
    then have "sublist x ((x' @ sep) @ join sep (y # ys))"
      by (rule sublist_order.order_trans) (rule sublist_append_leftI)
    then show ?thesis by simp
  qed
qed

lemma otherFields_in_prompt:
  "sublist otherFields (sensoryFieldPrompt lead fieldName otherFields expo)"
proof -
  have "sublist (js ''    '' @ otherFields @ nl)
      (sensoryFieldPrompt lead fieldName otherFields expo)"
    unfolding sensoryFieldPrompt_def
    by (rule sublist_concat_here | rule sublist_concat_skip)+
  moreover have "sublist otherFields (js ''    '' @ otherFields @ nl)"
    by (rule sublist_appendI)
  ultimately show ?thesis
    using sublist_order.order_trans by blast
qed

lemma context_in_prompt:
  assumes "entry \<in> set s" and "fst entry \<noteq> fieldKey f"
  shows "sublist (contextLine entry)
     (sensoryFieldPrompt lead (fieldKey f) (otherFieldsOf f s) expo)"
proof -
  from assms have "contextLine entry \<in>
      set (map contextLine (filter (\<lambda>entry. fst entry \<noteq> fieldKey f) s))"
    by auto
  then have "sublist (contextLine entry) (otherFieldsOf f s)"
    unfolding otherFieldsOf_eq by (rule sublist_join)
  then show ?thesis
    using otherFields_in_prompt sublist_order.order_trans by blast
qed

lemma commitDetails_saved:
  "transmission (state a) = Some t \<Longrightarrow>
     saved (commitDetails lead d a) =
       saved a @ [t\<lparr>leads := map (\<lambda>l. if leadId l = leadId lead then l\<lparr>details := Some d\<rparr> else l)
                           (leads t)\<rparr>]"
  by (simp add: commitDetails_def Let_def)

text \<open>
  C3. When the handler is asked for a new value of one sensory field of a lead that has
  details, and the key is there, the stream ends without an error and its text parses,
  the details it writes back are the lead's details with that one key of the sensory
  record set to the value the response gives under it: every other key reads as before,
  the keys keep their order, and the expanded description and the image are as they
  were. These details go to every lead of the transmission with the lead's id, to the
  saved transmission and to the open dossier. The one call made on the service carries a
  prompt that contains the other entries of the sensory record, each as a line
  \<open>key: value\<close>, in the record's order, and that does not depend on the old value of
  the field.
\<close>

theorem sensory_regeneration_touches_one_field:
  assumes "canGenerate a"
    and "details lead = Some d"
    and "transmission (state a) = Some t"
    and "getAI w = Inr k"
    and "generateContentStream ai (sent w) k
           (sensoryFieldParams lead f (sensory d) (exposition t)) = Inr r"
    and "thrown r = None"
    and "parseFields json (clean (concat (map textOf (chunks r)))) = Inr result"
  shows "\<exists>d'. d' = d\<lparr>sensory := AList.update (fieldKey f) (result (fieldKey f)) (sensory d)\<rparr>
      \<and> transmission (state (fst (handleRegenerateDossierField ai json lead SensoryField
            (Some f) a w))) =
          Some (t\<lparr>leads := map (\<lambda>l. if leadId l = leadId lead then l\<lparr>details := Some d'\<rparr> else l)
                              (leads t)\<rparr>)
      \<and> activeLead (fst (handleRegenerateDossierField ai json lead SensoryField (Some f) a w)) =
          Some (lead\<lparr>details := Some d'\<rparr>, Some d')
      \<and> saved (fst (handleRegenerateDossierField ai json lead SensoryField (Some f) a w)) =
          saved a @ [t\<lparr>leads := map (\<lambda>l. if leadId l = leadId lead
                                           then l\<lparr>details := Some d'\<rparr> else l) (leads t)\<rparr>]
      \<and> getProp (sensory d') (fieldKey f) = Some (result (fieldKey f))
      \<and> (\<forall>key. key \<noteq> fieldKey f \<longrightarrow> getProp (sensory d') key = getProp (sensory d) key)
      \<and> (fieldKey f \<in> fst ` set (sensory d) \<longrightarrow> map fst (sensory d') = map fst (sensory d))
      \<and> expandedDescription d' = expandedDescription d
      \<and> imageUrl d' = imageUrl d
      \<and> sent (snd (handleRegenerateDossierField ai json lead SensoryField (Some f) a w)) =
          sent w @ [StreamCall k (sensoryFieldParams lead f (sensory d) (exposition t))]
      \<and> contents (sensoryFieldParams lead f (sensory d) (exposition t)) =
          Prompt (sensoryFieldPrompt lead (fieldKey f) (otherFieldsOf f (sensory d)) (exposition t))
      \<and> otherFieldsOf f (sensory d) =
          join nl (map contextLine (filter (\<lambda>entry. fst entry \<noteq> fieldKey f) (sensory d)))
      \<and> sublist (otherFieldsOf f (sensory d))
          (sensoryFieldPrompt lead (fieldKey f) (otherFieldsOf f (sensory d)) (exposition t))
      \<and> (\<forall>entry \<in> set (sensory d). fst entry \<noteq> fieldKey f \<longrightarrow>
            sublist (contextLine entry)
              (sensoryFieldPrompt lead (fieldKey f) (otherFieldsOf f (sensory d)) (exposition t)))
      \<and> (\<forall>v. sensoryFieldParams lead f (withField (sensory d) f v) (exposition t) =
              sensoryFieldParams lead f (sensory d) (exposition t))"
proof -
  define d' where "d' = d\<lparr>sensory := AList.update (fieldKey f) (result (fieldKey f)) (sensory d)\<rparr>"
  have s': "sensory d' = withField (sensory d) f (result (fieldKey f))"
    by (simp add: d'_def withField_def)
  have h: "handleRegenerateDossierField ai json lead SensoryField (Some f) a w =
      (commitDetails lead d' a,
       record_call (StreamCall k (sensoryFieldParams lead f (sensory d) (exposition t))) w)"
    using assms(1-3) regenerateSensoryField_ok [OF assms(4-7)]
    by (simp add: handleRegenerateDossierField_def regenerateDetails_def d'_def withField_def)
  have st: "transmission (state (commitDetails lead d' a)) =
          Some (t\<lparr>leads := map (\<lambda>l. if leadId l = leadId lead then l\<lparr>details := Some d'\<rparr> else l)
                              (leads t)\<rparr>)"
    "activeLead (commitDetails lead d' a) = Some (lead\<lparr>details := Some d'\<rparr>, Some d')"
    using commitDetails_state [OF assms(3), of lead d'] by simp_all
  have sv: "saved (commitDetails lead d' a) =
          saved a @ [t\<lparr>leads := map (\<lambda>l. if leadId l = leadId lead
                                           then l\<lparr>details := Some d'\<rparr> else l) (leads t)\<rparr>]"
    by (rule commitDetails_saved [OF assms(3)])
  have fr: "getProp (sensory d') (fieldKey f) = Some (result (fieldKey f))"
    "\<forall>key. key \<noteq> fieldKey f \<longrightarrow> getProp (sensory d') key = getProp (sensory d) key"
    by (simp_all add: s' withField_frame)
  have ord: "fieldKey f \<in> fst ` set (sensory d) \<longrightarrow> map fst (sensory d') = map fst (sensory d)"
    by (simp add: d'_def update_keys)
  have rest: "expandedDescription d' = expandedDescription d" "imageUrl d' = imageUrl d"
    by (simp_all add: d'_def)
  have snt: "sent (record_call (StreamCall k (sensoryFieldParams lead f (sensory d) (exposition t))) w)
      = sent w @ [StreamCall k (sensoryFieldParams lead f (sensory d) (exposition t))]"
    by (simp add: record_call_def)
  have c: "contents (sensoryFieldParams lead f (sensory d) (exposition t)) =
          Prompt (sensoryFieldPrompt lead (fieldKey f) (otherFieldsOf f (sensory d)) (exposition t))"
    by (simp add: sensoryFieldParams_def Let_def)
  have ctx: "\<forall>entry \<in> set (sensory d). fst entry \<noteq> fieldKey f \<longrightarrow>
            sublist (contextLine entry)
              (sensoryFieldPrompt lead (fieldKey f) (otherFieldsOf f (sensory d)) (exposition t))"
    using context_in_prompt by blast
  have ind: "\<forall>v. sensoryFieldParams lead f (withField (sensory d) f v) (exposition t) =
              sensoryFieldParams lead f (sensory d) (exposition t)"
    by (simp add: sensoryFieldParams_def otherFieldsOf_withField)
  show ?thesis
    apply (rule exI [of _ d'])
    apply (intro conjI)
    using d'_def h st sv fr ord rest snt c otherFieldsOf_eq otherFields_in_prompt ctx ind
    by simp_all
qed

theorem sensory_regeneration_touches_one_field_witness:
  "canGenerate (sampleApp [dossierLead])
   \<and> details dossierLead = Some sampleDetails
   \<and> getAI keyedWorld = Inr (js ''k'')
   \<and> otherFieldsOf Smell (sensory sampleDetails) =
       js ''sight: A'' @ nl @ js ''sound: B'' @ nl @ js ''vibe: D''
   \<and> sublist (otherFieldsOf Smell (sensory sampleDetails))
       (sensoryFieldPrompt dossierLead (fieldKey Smell)
          (otherFieldsOf Smell (sensory sampleDetails))
          (exposition (sampleTransmission [dossierLead])))
   \<and> transmission (state (fst (handleRegenerateDossierField sampleSdk (sampleJson [])
        dossierLead SensoryField (Some Smell) (sampleApp [dossierLead]) keyedWorld))) =
      Some (sampleTransmission [dossierLead\<lparr>details := Some (sampleDetails\<lparr>sensory :=
        [(js ''sight'', js ''A''), (js ''sound'', js ''B''), (js ''smell'', js ''N''),
         (js ''vibe'', js ''D'')]\<rparr>)\<rparr>])
   \<and> activeLead (fst (handleRegenerateDossierField sampleSdk (sampleJson [])
        dossierLead SensoryField (Some Smell) (sampleApp [dossierLead]) keyedWorld)) =
      Some (dossierLead\<lparr>details := Some (sampleDetails\<lparr>sensory :=
        [(js ''sight'', js ''A''), (js ''sound'', js ''B''), (js ''smell'', js ''N''),
         (js ''vibe'', js ''D'')]\<rparr>)\<rparr>,
        Some (sampleDetails\<lparr>sensory :=
        [(js ''sight'', js ''A''), (js ''sound'', js ''B''), (js ''smell'', js ''N''),
         (js ''vibe'', js ''D'')]\<rparr>))"
proof -
  let ?n = "sampleDetails\<lparr>sensory :=
        [(js ''sight'', js ''A''), (js ''sound'', js ''B''), (js ''smell'', js ''N''),
         (js ''vibe'', js ''D'')]\<rparr>"
  let ?h = "fst (handleRegenerateDossierField sampleSdk (sampleJson [])
        dossierLead SensoryField (Some Smell) (sampleApp [dossierLead]) keyedWorld)"
  have a: "canGenerate (sampleApp [dossierLead])" by (rule sample_app)
  have b: "details dossierLead = Some sampleDetails" by (rule dossierLead_fields)
  have c: "transmission (state (sampleApp [dossierLead])) = Some (sampleTransmission [dossierLead])"
    by (rule sample_app)
  have d: "getAI keyedWorld = Inr (js ''k'')" by (rule getAI_keyed)
  have e: "generateContentStream sampleSdk (sent keyedWorld) (js ''k'')
      (sensoryFieldParams dossierLead Smell (sensory sampleDetails)
         (exposition (sampleTransmission [dossierLead])))
      = Inr \<lparr>chunks = sampleChunks, thrown = None\<rparr>"
    by (rule sample_stream)
  have f: "thrown \<lparr>chunks = sampleChunks, thrown = None\<rparr> = None" by simp
  have g: "parseFields (sampleJson [])
      (clean (concat (map textOf (chunks \<lparr>chunks = sampleChunks, thrown = None\<rparr>))))
      = Inr (\<lambda>key. js ''N'')"
    by (simp add: sampleJson_def)
  have o: "otherFieldsOf Smell (sensory sampleDetails) =
       js ''sight: A'' @ nl @ js ''sound: B'' @ nl @ js ''vibe: D''"
    by (simp add: otherFieldsOf_def entries_def sampleDetails_def js_def)
  from sensory_regeneration_touches_one_field [OF a b c d e f g]
  obtain d' where
    d1: "d' = sampleDetails\<lparr>sensory := AList.update (fieldKey Smell) (js ''N'')
        (sensory sampleDetails)\<rparr>"
    and d2: "transmission (state ?h) =
          Some ((sampleTransmission [dossierLead])\<lparr>leads := map (\<lambda>l. if leadId l = leadId dossierLead
             then l\<lparr>details := Some d'\<rparr> else l) (leads (sampleTransmission [dossierLead]))\<rparr>)"
    and d3: "activeLead ?h = Some (dossierLead\<lparr>details := Some d'\<rparr>, Some d')"
    and d4: "sublist (otherFieldsOf Smell (sensory sampleDetails))
       (sensoryFieldPrompt dossierLead (fieldKey Smell)
          (otherFieldsOf Smell (sensory sampleDetails))
          (exposition (sampleTransmission [dossierLead])))"
    apply (elim exE conjE)
    by (rule that)
  have n: "d' = ?n"
    unfolding d1 by (simp add: sampleDetails_def js_def)
  from d2 have s: "transmission (state ?h) =
      Some (sampleTransmission [dossierLead\<lparr>details := Some ?n\<rparr>])"
    unfolding n by (simp add: sampleTransmission_def)
  from d3 have l: "activeLead ?h = Some (dossierLead\<lparr>details := Some ?n\<rparr>, Some ?n)"
    unfolding n .
  from a b d o d4 s l show ?thesis
    by (intro conjI)
qed

subsection \<open>The full run\<close>

lemma image_stage_total:
  "\<exists>url w'. generateLeadInspectionImage ai lead ttl summ s w = (Inr url, w')"
  by (cases "imageAttempt ai (inspectionImageParams lead ttl summ s) w")
    (auto simp: generateLeadInspectionImage_def catchImage_def split: sum.splits)

lemma detailLead_eq:
  "fst (detailLead ai json ttl summ expo n i lead w) =
     withResult lead (detailOf ai json lead ttl summ expo (callback (processingLine n i lead) w))"
proof (cases "generateLeadInspectionText ai json lead ttl summ expo
        (callback (processingLine n i lead) w)")
  case (Pair r w2)
  show ?thesis
  proof (cases r)
    case (Inl e)
    with Pair show ?thesis by (simp add: detailLead_def detailOf_def withResult_def)
  next
    case (Inr answer)
    show ?thesis
    proof (cases answer)
      case None
      with Pair Inr show ?thesis
        by (simp add: detailLead_def detailOf_def withResult_def sensoryOf_def)
    next
      case (Some a)
      show ?thesis
      proof (cases "answerSensory a")
        case None
        with Pair Inr Some show ?thesis
          by (simp add: detailLead_def detailOf_def withResult_def sensoryOf_def)
      next
        case (Some s)
        obtain url w3 where "generateLeadInspectionImage ai lead ttl summ
            (render (getProp s (js ''sight''))) w2 = (Inr url, w3)"
          using image_stage_total by blast
        with Pair Inr \<open>answer = Some a\<close> Some show ?thesis
          by (simp add: detailLead_def detailOf_def withResult_def sensoryOf_def)
      qed
    qed
  qed
qed

lemma length_detailResults:
  "length (detailResults ai json ttl summ expo n i ls w) = length ls"
  by (induction ls arbitrary: i w) simp_all

lemma detailLoop_eq:
  "fst (detailLoop ai json ttl summ expo n i ls acc w) =
     acc @ map2 withResult ls (detailResults ai json ttl summ expo n i ls w)"
proof (induction ls arbitrary: i acc w)
  case Nil
  then show ?case by simp
next
  case (Cons lead rest)
  obtain l' w' where step: "detailLead ai json ttl summ expo n i lead w = (l', w')"
    by (cases "detailLead ai json ttl summ expo n i lead w")
  then have l': "l' = withResult lead
      (detailOf ai json lead ttl summ expo (callback (processingLine n i lead) w))"
    using detailLead_eq [of ai json ttl summ expo n i lead w] by simp
  from step Cons.IH [of "i + 1" "acc @ [l']" w'] l' show ?case
    by simp
qed

lemma full_run_eq:
  assumes "fst (generateStructure ai json theme w) = Inr t"
  shows "fst (generateFullTransmission ai json theme w) =
     Inr (t\<lparr>leads := map2 withResult (leads t) (fullRunResults ai json theme w)\<rparr>)"
    and "length (fullRunResults ai json theme w) = length (leads t)"
proof -
  obtain w1 where s: "generateStructure ai json theme w = (Inr t, w1)"
    using assms by (cases "generateStructure ai json theme w") simp
  let ?w = "callback (scanLine (length (leads t))) w1"
  obtain ys w2 where loop: "detailLoop ai json (title t) (settingSummary t) (exposition t)
      (length (leads t)) 0 (leads t) [] ?w = (ys, w2)"
    by (cases "detailLoop ai json (title t) (settingSummary t) (exposition t)
      (length (leads t)) 0 (leads t) [] ?w")
  with detailLoop_eq [of ai json "title t" "settingSummary t" "exposition t"
      "length (leads t)" 0 "leads t" "[]" ?w]
  have ys: "ys = map2 withResult (leads t) (detailResults ai json (title t) (settingSummary t)
      (exposition t) (length (leads t)) 0 (leads t) ?w)"
    by simp
  show "fst (generateFullTransmission ai json theme w) =
     Inr (t\<lparr>leads := map2 withResult (leads t) (fullRunResults ai json theme w)\<rparr>)"
    using s loop ys by (simp add: generateFullTransmission_def fullRunResults_def)
  show "length (fullRunResults ai json theme w) = length (leads t)"
    using s by (simp add: fullRunResults_def length_detailResults)
qed

text \<open>
  C1, as the code has it. Let a full run get through its structure stages with a roster
  of N leads, and let the detail generation fail for the lead at index k and for no
  other, where it fails when the detail-text call throws or when its answer is \<open>null\<close>
  or has no sensory record to read the sight from. Then the run returns a transmission
  and not an error; it has N leads, in the order of the roster, each with the id, name,
  description and category it had; the lead at k is the roster's lead unchanged, so
  without details when the roster's lead had none; every other lead has the details
  made of its answer and its image; and nothing else of the transmission differs.
\<close>

theorem per_lead_failure_is_contained:
  assumes "fst (generateStructure ai json theme w) = Inr t"
    and "k < length (leads t)"
    and "fullRunResults ai json theme w ! k = None"
    and "\<forall>j < length (leads t). j \<noteq> k \<longrightarrow> fullRunResults ai json theme w ! j \<noteq> None"
  shows "\<exists>t'. fst (generateFullTransmission ai json theme w) = Inr t'
     \<and> length (leads t') = length (leads t)
     \<and> (\<forall>j < length (leads t).
          leadId (leads t' ! j) = leadId (leads t ! j)
        \<and> name (leads t' ! j) = name (leads t ! j)
        \<and> description (leads t' ! j) = description (leads t ! j)
        \<and> category (leads t' ! j) = category (leads t ! j))
     \<and> leads t' ! k = leads t ! k
     \<and> (details (leads t ! k) = None \<longrightarrow> details (leads t' ! k) = None)
     \<and> (\<forall>j < length (leads t). j \<noteq> k \<longrightarrow>
          details (leads t' ! j) = fullRunResults ai json theme w ! j
        \<and> details (leads t' ! j) \<noteq> None)
     \<and> t' = t\<lparr>leads := leads t'\<rparr>"
proof -
  let ?R = "fullRunResults ai json theme w"
  define ys where "ys = map2 withResult (leads t) ?R"
  note run = full_run_eq [OF assms(1)]
  have res: "fst (generateFullTransmission ai json theme w) = Inr (t\<lparr>leads := ys\<rparr>)"
    using run(1) by (simp add: ys_def)
  have len: "length ys = length (leads t)"
    using run(2) by (simp add: ys_def)
  have nth: "\<forall>j < length (leads t). ys ! j = withResult (leads t ! j) (?R ! j)"
    using run(2) by (simp add: ys_def)
  have at_k: "ys ! k = leads t ! k"
    using nth assms(2,3) by (simp add: withResult_def)
  have others: "\<forall>j < length (leads t). j \<noteq> k \<longrightarrow>
      (\<exists>d. ?R ! j = Some d \<and> ys ! j = (leads t ! j)\<lparr>details := Some d\<rparr>)"
    using nth assms(4) by (auto simp: withResult_def)
  have fields: "\<forall>j < length (leads t).
          leadId (ys ! j) = leadId (leads t ! j)
        \<and> name (ys ! j) = name (leads t ! j)
        \<and> description (ys ! j) = description (leads t ! j)
        \<and> category (ys ! j) = category (leads t ! j)"
  proof (intro allI impI)
    fix j assume j: "j < length (leads t)"
    with nth have "ys ! j = withResult (leads t ! j) (?R ! j)" by blast
    then show "leadId (ys ! j) = leadId (leads t ! j)
        \<and> name (ys ! j) = name (leads t ! j)
        \<and> description (ys ! j) = description (leads t ! j)
        \<and> category (ys ! j) = category (leads t ! j)"
      by (cases "?R ! j") (simp_all add: withResult_def)
  qed
  have some: "\<forall>j < length (leads t). j \<noteq> k \<longrightarrow>
          details (ys ! j) = ?R ! j \<and> details (ys ! j) \<noteq> None"
    using others by auto
  show ?thesis
    using res len fields at_k some assms(4) by (intro exI [of _ "t\<lparr>leads := ys\<rparr>"]) simp
qed

text \<open>The sample runs: the world's steps, and what the sample services and parsers answer.\<close>

lemma world_steps:
  "getAI (callback l w) = getAI w"
  "getAI (record_call c w) = getAI w"
  "getAI (consoleError l w) = getAI w"
  "sent (callback l w) = sent w"
  "sent (record_call c w) = sent w @ [c]"
  "sent (consoleError l w) = sent w"
  "dateNow (callback l w) = dateNow w"
  "dateNow (record_call c w) = dateNow w"
  "dateNow (consoleError l w) = dateNow w"
  "dateLocale (callback l w) = dateLocale w"
  "dateLocale (record_call c w) = dateLocale w"
  "dateLocale (consoleError l w) = dateLocale w"
  by (simp_all add: getAI_def getApiKey_def callback_def record_call_def consoleError_def)

lemma keyedWorld_clock: "dateNow keyedWorld = 7" "dateLocale keyedWorld = js ''11/3/2026''"
  by (simp_all add: keyedWorld_def)

lemma flaky_answers:
  "generateContentStream flakySdk h k p =
     (if length h = 6 then Inl (ServiceError (js ''unavailable''))
      else Inr \<lparr>chunks = sampleChunks, thrown = None\<rparr>)"
  "generateContent flakySdk h k p =
     Inr \<lparr>candidates = Some [\<lparr>content = Some \<lparr>parts = Some sampleParts\<rparr>\<rparr>]\<rparr>"
  by (simp_all add: flakySdk_def sampleSdk_def)

lemma gap_answers:
  "generateContentStream gapSdk h k p =
     (if length h = 6 then Inl (ServiceError (js ''unavailable''))
      else if length h = 7 then Inr \<lparr>chunks = nullChunks, thrown = None\<rparr>
      else Inr \<lparr>chunks = sampleChunks, thrown = None\<rparr>)"
  "generateContent gapSdk h k p =
     Inr \<lparr>candidates = Some [\<lparr>content = Some \<lparr>parts = Some sampleParts\<rparr>\<rparr>]\<rparr>"
  by (simp_all add: gapSdk_def sampleSdk_def)

lemma sample_image: "firstInlineData (responseParts
     \<lparr>candidates = Some [\<lparr>content = Some \<lparr>parts = Some sampleParts\<rparr>\<rparr>]\<rparr>)
     = Some (js ''data:image/png;base64,AAA'')"
  by (simp add: responseParts_def sampleParts_def render_def js_def)

lemma sample_parsers:
  "parseTitleAndSetting (sampleJson roster) s = Inr (js ''Title'', js ''Summary'')"
  "parseExposition (sampleJson roster) s = Inr sampleExposition"
  "parseLeads (sampleJson roster) s = Inr (Some roster)"
  "parseInspection (sampleJson roster) s =
     Inr (Some \<lparr>answerSensory = Some (sensory sampleDetails),
       answerDescription = expandedDescription sampleDetails\<rparr>)"
  by (simp_all add: sampleJson_def)

lemma sample_texts:
  "clean (concat (map textOf sampleChunks)) = js ''{}''"
  "clean (concat (map textOf nullChunks)) = js ''null''"
  by (simp_all add: sampleChunks_def nullChunks_def textOf_def clean_def trim_def
      replaceFences.simps(2) fence_json_nl_def fence_json_def fence_def isWhiteSpace_def js_def)

lemma gap_parsers:
  "parseTitleAndSetting gapJson s = Inr (js ''Title'', js ''Summary'')"
  "parseExposition gapJson s = Inr sampleExposition"
  "parseLeads gapJson s = Inr (Some sampleRoster)"
  "parseInspection gapJson (js ''null'') = Inr None"
  "parseInspection gapJson (js ''{}'') =
     Inr (Some \<lparr>answerSensory = Some (sensory sampleDetails),
       answerDescription = expandedDescription sampleDetails\<rparr>)"
  by (simp_all add: gapJson_def sampleJson_def js_def)

lemma filled: "\<lparr>sensory = sensory sampleDetails,
     expandedDescription = expandedDescription sampleDetails,
     imageUrl = Some (js ''data:image/png;base64,AAA'')\<rparr> = filledDetails"
  by (simp add: filledDetails_def sampleDetails_def)

lemmas stage_defs = generateStructure_def generateTitleAndSetting_def generateExposition_def
  generateLeads_def generateTransmissionHeader_def generateLeadInspectionText_def
  generateLeadInspectionImage_def streamJson_def imageAttempt_def catchImage_def
  parseClean_def Let_def accumulate_eq

lemmas sample_run = world_steps getAI_keyed keyedWorld_logs keyedWorld_clock flaky_answers
  gap_answers sample_image sample_parsers sample_texts gap_parsers filled

lemma sample_structure:
  "fst (generateStructure flakySdk (sampleJson sampleRoster) (js ''theme'') keyedWorld)
     = Inr sampleStructure"
  by (simp add: stage_defs sample_run sampleStructure_def)

lemma sample_results:
  "fullRunResults flakySdk (sampleJson sampleRoster) (js ''theme'') keyedWorld
     = [Some filledDetails, None, Some filledDetails]"
  by (simp add: fullRunResults_def detailOf_def detailLead_def sensoryOf_def stage_defs
      sample_run sampleRoster_def)

lemma gap_structure:
  "fst (generateStructure gapSdk gapJson (js ''theme'') keyedWorld) = Inr sampleStructure"
  by (simp add: stage_defs sample_run sampleStructure_def)

lemma gap_results:
  "fullRunResults gapSdk gapJson (js ''theme'') keyedWorld = [Some filledDetails, None, None]"
  by (simp add: fullRunResults_def detailOf_def detailLead_def sensoryOf_def stage_defs
      sample_run sampleRoster_def)

lemma gap_failures:
  "fullRunFailures gapSdk gapJson (js ''theme'') keyedWorld = [False, True, False]"
  by (simp add: fullRunFailures_def detailLead_def sensoryOf_def stage_defs
      sample_run sampleRoster_def)

theorem per_lead_failure_is_contained_witness:
  "fst (generateStructure flakySdk (sampleJson sampleRoster) (js ''theme'') keyedWorld)
     = Inr sampleStructure
   \<and> (1::nat) < length (leads sampleStructure)
   \<and> fullRunResults flakySdk (sampleJson sampleRoster) (js ''theme'') keyedWorld
     = [Some filledDetails, None, Some filledDetails]
   \<and> details (leads sampleStructure ! 1) = None
   \<and> (\<exists>t'. fst (generateFullTransmission flakySdk (sampleJson sampleRoster) (js ''theme'')
              keyedWorld) = Inr t'
        \<and> length (leads t') = 3
        \<and> details (leads t' ! 0) = Some filledDetails
        \<and> details (leads t' ! 1) = None
        \<and> details (leads t' ! 2) = Some filledDetails
        \<and> map name (leads t') = map name sampleRoster)"
proof -
  let ?R = "fullRunResults flakySdk (sampleJson sampleRoster) (js ''theme'') keyedWorld"
  have len: "length (leads sampleStructure) = 3"
    by (simp add: sampleStructure_def sampleRoster_def)
  have a: "fst (generateStructure flakySdk (sampleJson sampleRoster) (js ''theme'') keyedWorld)
     = Inr sampleStructure"
    by (rule sample_structure)
  have b: "(1::nat) < length (leads sampleStructure)"
    by (simp add: len)
  have r: "?R = [Some filledDetails, None, Some filledDetails]"
    by (rule sample_results)
  have c: "?R ! 1 = None"
    by (simp add: r)
  have r0: "?R ! 0 = Some filledDetails" and r2: "?R ! 2 = Some filledDetails"
    by (simp_all add: r)
  have e: "\<forall>j < length (leads sampleStructure). j \<noteq> 1 \<longrightarrow> ?R ! j \<noteq> None"
  proof (intro allI impI)
    fix j :: nat
    assume "j < length (leads sampleStructure)" and "j \<noteq> 1"
    with len have "j = 0 \<or> j = 2" by auto
    with r0 r2 show "?R ! j \<noteq> None" by auto
  qed
  have d: "details (leads sampleStructure ! 1) = None"
    by (simp add: sampleStructure_def sampleRoster_def sampleLead_def)
  from per_lead_failure_is_contained [OF a b c e]
  obtain t' where
    t1: "fst (generateFullTransmission flakySdk (sampleJson sampleRoster) (js ''theme'')
              keyedWorld) = Inr t'"
    and t2: "length (leads t') = length (leads sampleStructure)"
    and t3: "\<forall>j < length (leads sampleStructure).
          leadId (leads t' ! j) = leadId (leads sampleStructure ! j)
        \<and> name (leads t' ! j) = name (leads sampleStructure ! j)
        \<and> description (leads t' ! j) = description (leads sampleStructure ! j)
        \<and> category (leads t' ! j) = category (leads sampleStructure ! j)"
    and t5: "details (leads sampleStructure ! 1) = None \<longrightarrow> details (leads t' ! 1) = None"
    and t6: "\<forall>j < length (leads sampleStructure). j \<noteq> 1 \<longrightarrow>
          details (leads t' ! j) = ?R ! j \<and> details (leads t' ! j) \<noteq> None"
    apply (elim exE conjE)
    by (rule that)
  from t2 len have g: "length (leads t') = 3"
    by simp
  have roster: "leads sampleStructure = sampleRoster"
    by (simp add: sampleStructure_def)
  have three: "length sampleRoster = 3"
    by (simp add: sampleRoster_def)
  have names: "map name (leads t') = map name sampleRoster"
  proof (rule nth_equalityI)
    show "length (map name (leads t')) = length (map name sampleRoster)"
      using g three by simp
  next
    fix i assume "i < length (map name (leads t'))"
    with g have i: "i < 3" by simp
    with t3 len have "name (leads t' ! i) = name (leads sampleStructure ! i)"
      by simp
    with i g three roster show "map name (leads t') ! i = map name sampleRoster ! i"
      by simp
  qed
  from t6 len r0 have e0: "details (leads t' ! 0) = Some filledDetails"
    by simp
  from t6 len r2 have e2: "details (leads t' ! 2) = Some filledDetails"
    by simp
  from t5 d have f: "details (leads t' ! 1) = None"
    by simp
  have "\<exists>t'. fst (generateFullTransmission flakySdk (sampleJson sampleRoster) (js ''theme'')
              keyedWorld) = Inr t'
        \<and> length (leads t') = 3
        \<and> details (leads t' ! 0) = Some filledDetails
        \<and> details (leads t' ! 1) = None
        \<and> details (leads t' ! 2) = Some filledDetails
        \<and> map name (leads t') = map name sampleRoster"
    using t1 g e0 f e2 names by (intro exI [of _ t'] conjI)
  with a b r d show ?thesis
    by (intro conjI)
qed

theorem malformed_answer_leaves_lead_bare:
  "fullRunFailures gapSdk gapJson (js ''theme'') keyedWorld = [False, True, False]
   \<and> map details (leadsOf (fst (generateFullTransmission gapSdk gapJson (js ''theme'')
        keyedWorld))) = [Some filledDetails, None, None]"
proof -
  have "fst (generateFullTransmission gapSdk gapJson (js ''theme'') keyedWorld) =
     Inr (sampleStructure\<lparr>leads := map2 withResult (leads sampleStructure)
       [Some filledDetails, None, None]\<rparr>)"
    using full_run_eq(1) [OF gap_structure] by (simp add: gap_results)
  then have "map details (leadsOf (fst (generateFullTransmission gapSdk gapJson (js ''theme'')
        keyedWorld))) = [Some filledDetails, None, None]"
    by (simp add: leadsOf_def sampleStructure_def sampleRoster_def withResult_def sampleLead_def)
  with gap_failures show ?thesis
    by (intro conjI)
qed

end
